theory Spec2Isabelle
  imports Complex_Main
begin

section \<open>The monitoring worker of the growth-experiment co-pilot\<close>

text \<open>
  A shallow embedding of \<^verbatim>\<open>orchestrator/worker_monitor.py\<close> (class
  \<^verbatim>\<open>MonitoringWorker\<close>) and of the placeholder metric fetch in
  \<^verbatim>\<open>integrations/posthog.py\<close>.

  Conventions of the model.
  \<^item> A Python exception is a value \<open>Error msg\<close>, where \<open>msg\<close> is \<^verbatim>\<open>str(e)\<close>; a
    computation that may raise returns \<open>error + 'a\<close>, with \<open>Inl\<close> the exception.
  \<^item> A Python float is a real number that is an IEEE double, extended by \<open>NaN\<close> and the
    infinities where the source can produce them. The rates of the mean branch are
    computed in double arithmetic, rounding to nearest, ties to even. The thresholds
    \<open>0.95\<close> and \<open>0.05\<close> of the rate branch are compared against a quotient \<open>k / n\<close> of
    integers; for \<open>n < 2^49\<close> the rounded comparison of doubles and the exact one agree,
    since \<open>20 * k - 19 * n\<close> and \<open>20 * k - n\<close> are integers, so that branch keeps exact
    values. The advisory confidence is kept as the exact decimal that the reply spells.
  \<^item> The numpy generator is external. Its global state is modelled by the numbers it
    is going to output for each pair of Beta parameters; a call of
    \<^verbatim>\<open>np.random.beta(a, b, size)\<close> takes the next \<open>size\<close> of them for its parameters and
    advances the state. Theorems quantify over every state.
  \<^item> Dictionaries are modelled at the types of \<^verbatim>\<open>schemas/experiment.py\<close>: a key that may
    be absent is an \<open>option\<close> field.
\<close>

subsection \<open>Values\<close>

datatype error = Error string

fun message :: "error \<Rightarrow> string" where
  "message (Error m) = m"

datatype pyfloat = Fl real | NaN

text \<open>The keys of a metric descriptor and of an experiment spec that the worker reads.\<close>

record metric =
  metric_name :: "string option"
  metric_type :: "string option"

record spec =
  min_sample_size :: "int option"
  primary_metric :: "metric option"

text \<open>
  The dictionary returned by \<^verbatim>\<open>analyze_experiment\<close> and \<^verbatim>\<open>use_ai_analyst\<close>. The keys
  \<^verbatim>\<open>prob_treatment_better\<close> and \<^verbatim>\<open>ai_override\<close> are present on some paths only:
  \<open>None\<close> and \<open>False\<close> stand for their absence.
\<close>

record analysis =
  decision :: string
  confidence :: real
  sample_size :: int
  reason :: string
  prob_treatment_better :: "pyfloat option"
  ai_override :: bool

subsection \<open>IEEE doubles\<close>

text \<open>
  Rounding a real to the nearest integer, ties to even; the binary exponent of a positive
  real; the spacing of the doubles around \<open>x\<close> (53 significant bits, subnormal below
  \<open>2^-1022\<close>); and the double nearest to \<open>x\<close>. A result overflows when it rounds to
  \<open>2^1024\<close> or beyond, that is from \<open>2^1024 - 2^970\<close> on.
\<close>

definition rne :: "real \<Rightarrow> int" where
  "rne x = (let f = \<lfloor>x\<rfloor>; d = x - of_int f
            in if d < 1/2 then f else if 1/2 < d then f + 1 else if even f then f else f + 1)"

function ilog2 :: "real \<Rightarrow> int" where
  "ilog2 x = (if 2 \<le> x then ilog2 (x / 2) + 1
              else if 0 < x \<and> x < 1 then ilog2 (2 * x) - 1
              else 0)"
  by pat_completeness auto
termination
proof (relation "measure (\<lambda>x. if 1 \<le> x then nat \<lfloor>x\<rfloor> else nat \<lceil>1 / x\<rceil>)")
  show "wf (measure (\<lambda>x. if 1 \<le> x then nat \<lfloor>x\<rfloor> else nat \<lceil>1 / x\<rceil>))"
    by simp
next
  fix x :: real
  assume a: "2 \<le> x"
  have "\<lfloor>x / 2\<rfloor> < \<lfloor>x\<rfloor>"
    using a by linarith
  then show "(x / 2, x) \<in> measure (\<lambda>x. if 1 \<le> x then nat \<lfloor>x\<rfloor> else nat \<lceil>1 / x\<rceil>)"
    using a by auto
next
  fix x :: real
  assume a: "\<not> 2 \<le> x" "0 < x \<and> x < 1"
  show "(2 * x, x) \<in> measure (\<lambda>x. if 1 \<le> x then nat \<lfloor>x\<rfloor> else nat \<lceil>1 / x\<rceil>)"
  proof (cases "1 \<le> 2 * x")
    case True
    have "\<lfloor>2 * x\<rfloor> = 1"
      using True a by linarith
    moreover have "1 < 1 / x"
      using a by simp
    then have "2 \<le> \<lceil>1 / x\<rceil>"
      by linarith
    ultimately show ?thesis
      using True a by auto
  next
    case False
    have h: "2 < 1 / x"
      using False a by (simp add: field_simps)
    have "1 / (2 * x) = (1 / x) / 2"
      by simp
    then have "\<lceil>1 / (2 * x)\<rceil> < \<lceil>1 / x\<rceil>"
      using h by linarith
    moreover have "0 < \<lceil>1 / x\<rceil>"
      using h by linarith
    ultimately show ?thesis
      using False a by auto
  qed
qed

declare ilog2.simps [simp del]

definition pow2 :: "int \<Rightarrow> real" where
  "pow2 e = (if 0 \<le> e then 2 ^ nat e else 1 / 2 ^ nat (- e))"

definition quantum :: "real \<Rightarrow> real" where
  "quantum x = (if \<bar>x\<bar> < pow2 (- 1022) then pow2 (- 1074) else pow2 (ilog2 \<bar>x\<bar> - 52))"

definition round_double :: "real \<Rightarrow> real" where
  "round_double x = of_int (rne (x / quantum x)) * quantum x"

definition overflows :: "real \<Rightarrow> bool" where
  "overflows x \<longleftrightarrow> 2 ^ 1024 - 2 ^ 970 \<le> \<bar>x\<bar>"

text \<open>
  \<open>a / b\<close> on Python integers is correctly rounded and raises \<^verbatim>\<open>OverflowError\<close> when
  the quotient is too large for a float. The product of two floats is rounded, and is
  an infinity when it overflows. A finite float compared with such a product.
\<close>

datatype xfloat = Finite real | PosInf | NegInf

definition int_true_div :: "int \<Rightarrow> int \<Rightarrow> error + real" where
  "int_true_div a b =
     (if b = 0 then Inl (Error ''division by zero'')
      else if overflows (real_of_int a / real_of_int b)
        then Inl (Error ''integer division result too large for a float'')
      else Inr (round_double (real_of_int a / real_of_int b)))"

definition float_mul :: "real \<Rightarrow> real \<Rightarrow> xfloat" where
  "float_mul x y =
     (if overflows (x * y) then (if 0 < x * y then PosInf else NegInf)
      else Finite (round_double (x * y)))"

fun float_gt :: "real \<Rightarrow> xfloat \<Rightarrow> bool" where
  "float_gt x (Finite y) \<longleftrightarrow> x > y"
| "float_gt x PosInf \<longleftrightarrow> False"
| "float_gt x NegInf \<longleftrightarrow> True"

fun float_lt :: "real \<Rightarrow> xfloat \<Rightarrow> bool" where
  "float_lt x (Finite y) \<longleftrightarrow> x < y"
| "float_lt x PosInf \<longleftrightarrow> True"
| "float_lt x NegInf \<longleftrightarrow> False"

subsection \<open>Formatting an integer, as \<^verbatim>\<open>str\<close> and an f-string do\<close>

definition digit_char :: "nat \<Rightarrow> char" where
  "digit_char d = ''0123456789'' ! d"

function str_nat :: "nat \<Rightarrow> string" where
  "str_nat n = (if n < 10 then [digit_char n] else str_nat (n div 10) @ [digit_char (n mod 10)])"
  by pat_completeness auto
termination
  by (relation "measure id") auto

declare str_nat.simps [simp del]

definition str_int :: "int \<Rightarrow> string" where
  "str_int i = (if i < 0 then CHR ''-'' # str_nat (nat (- i)) else str_nat (nat i))"

subsection \<open>The random generator and the Bayesian test\<close>

text \<open>
  The state of numpy's global generator, seen through the only call that reads it: \<open>g a b i\<close>
  is the \<open>i\<close>-th number the generator returns next when it is asked for draws from
  \<open>Beta(a, b)\<close>. The sampler itself belongs to numpy, so the state is a parameter of
  every function that draws.
\<close>

type_synonym rng = "int \<Rightarrow> int \<Rightarrow> nat \<Rightarrow> real"

text \<open>
  \<^verbatim>\<open>np.random.beta(a, b, size)\<close>: the integers \<open>a\<close> and \<open>b\<close> are converted to doubles,
  which raises \<^verbatim>\<open>OverflowError\<close> when one is too large for a float; numpy raises
  \<^verbatim>\<open>ValueError\<close> when \<open>a \<le> 0\<close>, when \<open>b \<le> 0\<close> and when \<open>size\<close> is negative; otherwise
  it returns \<open>size\<close> draws and the generator has advanced. (Memory is not modelled: a
  size that the machine cannot allocate raises as well.)
\<close>

definition np_random_beta :: "rng \<Rightarrow> int \<Rightarrow> int \<Rightarrow> int \<Rightarrow> (error + real list) \<times> rng" where
  "np_random_beta g a b sz =
     (if overflows (real_of_int a) \<or> overflows (real_of_int b)
        then (Inl (Error ''int too large to convert to float''), g)
      else if a \<le> 0 then (Inl (Error ''a <= 0''), g)
      else if b \<le> 0 then (Inl (Error ''b <= 0''), g)
      else if sz < 0 then (Inl (Error ''negative dimensions are not allowed''), g)
      else (Inr (map (g a b) [0..<nat sz]), \<lambda>a' b' i. g a' b' (i + nat sz)))"

text \<open>
  \<^verbatim>\<open>float((sb > sa).mean())\<close>: the fraction of positions where the treatment draw exceeds
  the control draw. The mean of an empty array is \<open>NaN\<close> (a warning, not an exception).
\<close>

definition mean_greater :: "real list \<Rightarrow> real list \<Rightarrow> pyfloat" where
  "mean_greater sb sa =
     (if sb = [] then NaN
      else Fl (real (length (filter (\<lambda>(b, a). b > a) (zip sb sa))) / real (length sb)))"

text \<open>The body of the \<^verbatim>\<open>try\<close> block of \<^verbatim>\<open>bayes_prob_better\<close>.\<close>

definition bayes_body :: "rng \<Rightarrow> int \<Rightarrow> int \<Rightarrow> int \<Rightarrow> int \<Rightarrow> int \<Rightarrow> (error + pyfloat) \<times> rng" where
  "bayes_body g suc_a tot_a suc_b tot_b sims =
     (let a1 = suc_a + 1; b1 = (tot_a - suc_a) + 1;
          a2 = suc_b + 1; b2 = (tot_b - suc_b) + 1
      in case np_random_beta g a1 b1 sims of
           (Inl e, g1) \<Rightarrow> (Inl e, g1)
         | (Inr sa, g1) \<Rightarrow>
             (case np_random_beta g1 a2 b2 sims of
                (Inl e, g2) \<Rightarrow> (Inl e, g2)
              | (Inr sb, g2) \<Rightarrow> (Inr (mean_greater sb sa), g2)))"

text \<open>\<^verbatim>\<open>bayes_prob_better\<close>: the \<^verbatim>\<open>except Exception\<close> clause returns \<open>0.5\<close>.\<close>

definition bayes_prob_better :: "rng \<Rightarrow> int \<Rightarrow> int \<Rightarrow> int \<Rightarrow> int \<Rightarrow> int \<Rightarrow> pyfloat \<times> rng" where
  "bayes_prob_better g suc_a tot_a suc_b tot_b sims =
     (case bayes_body g suc_a tot_a suc_b tot_b sims of
        (Inl e, g') \<Rightarrow> (Fl (1/2), g')
      | (Inr prob, g') \<Rightarrow> (prob, g'))"

subsection \<open>The metrics source\<close>

type_synonym counts = "int \<times> int \<times> int \<times> int"

text \<open>
  \<^verbatim>\<open>PostHogClient.get_metric_counts\<close> as the repository has it: a placeholder that
  returns the same counts for every key.
\<close>

definition get_metric_counts :: "string \<Rightarrow> error + counts" where
  "get_metric_counts experiment_key = Inr (480, 5000, 520, 5000)"

subsection \<open>\<^verbatim>\<open>analyze_experiment\<close>\<close>

text \<open>
  The worker object. Its collaborators are external, so they are fields that a theorem
  quantifies over: \<open>posthog\<close> is \<^verbatim>\<open>self.posthog.get_metric_counts\<close> (it may raise),
  \<open>memory\<close> is \<^verbatim>\<open>self.memory.retrieve_similar_experiments\<close> on the store as it is
  during the tick (the method catches its own exceptions and then returns the empty
  list), \<open>github_repo\<close> is the truth value of \<^verbatim>\<open>self.github.repo\<close>.
\<close>

record doc =
  content :: string
  metadata :: spec
  distance :: real

record worker =
  posthog :: "string \<Rightarrow> error + counts"
  memory :: "string \<Rightarrow> doc list"
  github_repo :: bool
  monitoring_interval :: nat

text \<open>\<^verbatim>\<open>__init__\<close> fixes the monitoring interval: 600 seconds.\<close>

definition MonitoringWorker ::
  "(string \<Rightarrow> error + counts) \<Rightarrow> (string \<Rightarrow> doc list) \<Rightarrow> bool \<Rightarrow> worker" where
  "MonitoringWorker ph mem gh =
     \<lparr>posthog = ph, memory = mem, github_repo = gh, monitoring_interval = 600\<rparr>"

text \<open>
  The helpers \<open>min_sample_of\<close> and \<open>metric_type_of\<close> are the two \<^verbatim>\<open>spec.get\<close> lookups
  with their defaults; \<open>rate_decision\<close> and \<open>mean_decision\<close> are the bodies of the
  \<^verbatim>\<open>"rate"\<close> and \<^verbatim>\<open>"mean"\<close> branches. In the \<^verbatim>\<open>"mean"\<close> branch the two rates are
  quotients of integers (or the integer \<open>0\<close>), the literals \<^verbatim>\<open>1.1\<close> and \<^verbatim>\<open>0.9\<close> are the
  doubles nearest to them, and a quotient that is too large for a float raises.
\<close>

definition min_sample_of :: "spec \<Rightarrow> int" where
  "min_sample_of sp = (case min_sample_size sp of None \<Rightarrow> 2000 | Some m \<Rightarrow> m)"

definition metric_type_of :: "spec \<Rightarrow> string" where
  "metric_type_of sp =
     (case primary_metric sp of
        None \<Rightarrow> ''rate''
      | Some m \<Rightarrow> (case metric_type m of None \<Rightarrow> ''rate'' | Some t \<Rightarrow> t))"

definition rate_decision :: "pyfloat \<Rightarrow> int \<Rightarrow> analysis" where
  "rate_decision prob_better total_sample =
     (case prob_better of
        Fl p \<Rightarrow>
          if p \<ge> 95/100 then
            \<lparr>decision = ''ship_treatment'', confidence = p, sample_size = total_sample,
             reason = ''Strong evidence treatment is better'',
             prob_treatment_better = Some prob_better, ai_override = False\<rparr>
          else if p \<le> 5/100 then
            \<lparr>decision = ''ship_control'', confidence = 1 - p, sample_size = total_sample,
             reason = ''Strong evidence control is better'',
             prob_treatment_better = Some prob_better, ai_override = False\<rparr>
          else
            \<lparr>decision = ''extend'', confidence = 1/2, sample_size = total_sample,
             reason = ''Inconclusive results'',
             prob_treatment_better = Some prob_better, ai_override = False\<rparr>
      | NaN \<Rightarrow>
          \<lparr>decision = ''extend'', confidence = 1/2, sample_size = total_sample,
           reason = ''Inconclusive results'',
           prob_treatment_better = Some prob_better, ai_override = False\<rparr>)"

definition mean_decision :: "counts \<Rightarrow> int \<Rightarrow> error + analysis" where
  "mean_decision c total_sample =
     (case c of (suc_c, tot_c, suc_t, tot_t) \<Rightarrow>
        (case (if tot_c > 0 then int_true_div suc_c tot_c else Inr 0) of
           Inl e \<Rightarrow> Inl e
         | Inr control_rate \<Rightarrow>
             (case (if tot_t > 0 then int_true_div suc_t tot_t else Inr 0) of
                Inl e \<Rightarrow> Inl e
              | Inr treatment_rate \<Rightarrow>
                  if float_gt treatment_rate (float_mul control_rate (round_double (11/10))) then
                    Inr \<lparr>decision = ''ship_treatment'', confidence = 9/10,
                         sample_size = total_sample, reason = ''Treatment shows improvement'',
                         prob_treatment_better = None, ai_override = False\<rparr>
                  else if float_lt treatment_rate (float_mul control_rate (round_double (9/10))) then
                    Inr \<lparr>decision = ''ship_control'', confidence = 9/10,
                         sample_size = total_sample, reason = ''Treatment shows degradation'',
                         prob_treatment_better = None, ai_override = False\<rparr>
                  else
                    Inr \<lparr>decision = ''extend'', confidence = 1/2,
                         sample_size = total_sample, reason = ''No clear difference'',
                         prob_treatment_better = None, ai_override = False\<rparr>)))"

text \<open>
  The body of the \<^verbatim>\<open>try\<close> block of \<^verbatim>\<open>analyze_experiment\<close>. The call of
  \<^verbatim>\<open>bayes_prob_better\<close> leaves \<^verbatim>\<open>sims\<close> at its default, 20000.
\<close>

definition analyze_body ::
  "worker \<Rightarrow> rng \<Rightarrow> string \<Rightarrow> spec \<Rightarrow> (error + analysis) \<times> rng" where
  "analyze_body self g experiment_key sp =
     (case posthog self experiment_key of
        Inl e \<Rightarrow> (Inl e, g)
      | Inr (suc_c, tot_c, suc_t, tot_t) \<Rightarrow>
          let total_sample = tot_c + tot_t;
              min_sample = min_sample_of sp
          in if total_sample < min_sample then
               (Inr \<lparr>decision = ''extend'', confidence = 1/2, sample_size = total_sample,
                     reason = ''Insufficient sample size ('' @ str_int total_sample @ '' < ''
                                @ str_int min_sample @ '')'',
                     prob_treatment_better = None, ai_override = False\<rparr>, g)
             else
               let metric_type = metric_type_of sp
               in if metric_type = ''rate'' then
                    (case bayes_prob_better g suc_c tot_c suc_t tot_t 20000 of
                       (prob_better, g') \<Rightarrow> (Inr (rate_decision prob_better total_sample), g'))
                  else if metric_type = ''mean'' then
                    (mean_decision (suc_c, tot_c, suc_t, tot_t) total_sample, g)
                  else
                    (Inr \<lparr>decision = ''extend'', confidence = 1/2, sample_size = total_sample,
                          reason = ''Unknown metric type: '' @ metric_type,
                          prob_treatment_better = None, ai_override = False\<rparr>, g))"

text \<open>\<^verbatim>\<open>analyze_experiment\<close>: the \<^verbatim>\<open>except Exception\<close> clause builds the error result.\<close>

definition analyze_experiment ::
  "worker \<Rightarrow> rng \<Rightarrow> string \<Rightarrow> spec \<Rightarrow> analysis \<times> rng" where
  "analyze_experiment self g experiment_key sp =
     (case analyze_body self g experiment_key sp of
        (Inl e, g') \<Rightarrow>
          (\<lparr>decision = ''extend'', confidence = 1/2, sample_size = 0,
            reason = ''Analysis error: '' @ message e,
            prob_treatment_better = None, ai_override = False\<rparr>, g')
      | (Inr r, g') \<Rightarrow> (r, g'))"

subsection \<open>\<^verbatim>\<open>msprt_test\<close>\<close>

text \<open>
  After the check of the lengths every value of \<^verbatim>\<open>msprt_test\<close> is a numpy scalar, and
  numpy is external: the operations that the function uses are the fields of a record,
  over a type \<open>'f\<close> of numpy floats, and a theorem quantifies over them. On lists of
  floats numpy reports overflow, division by zero and invalid operations by warnings
  and the values \<open>inf\<close> and \<open>nan\<close>, not by exceptions, so the operations are total and
  the \<^verbatim>\<open>except\<close> clause of the function is not reached. The parameter \<^verbatim>\<open>alpha\<close> is not
  read by the function.
\<close>

record 'f numpy =
  np_mean :: "real list \<Rightarrow> 'f"
  np_std :: "real list \<Rightarrow> 'f"
  np_sqrt_len :: "nat \<Rightarrow> 'f"
  np_sqrt :: "'f \<Rightarrow> 'f"
  np_div :: "'f \<Rightarrow> 'f \<Rightarrow> 'f"
  np_square :: "'f \<Rightarrow> 'f"
  np_add :: "'f \<Rightarrow> 'f \<Rightarrow> 'f"
  np_sub :: "'f \<Rightarrow> 'f \<Rightarrow> 'f"
  np_gt :: "'f \<Rightarrow> real \<Rightarrow> bool"
  np_lt :: "'f \<Rightarrow> real \<Rightarrow> bool"

text \<open>
  The dictionary that \<^verbatim>\<open>msprt_test\<close> returns has three keys.
\<close>

record test_result =
  test_decision :: string
  test_confidence :: real
  test_reason :: string

definition effect_size_of :: "'f numpy \<Rightarrow> real list \<Rightarrow> real list \<Rightarrow> 'f" where
  "effect_size_of np control_data treatment_data =
     (let control_mean = np_mean np control_data;
          treatment_mean = np_mean np treatment_data;
          control_se = np_div np (np_std np control_data) (np_sqrt_len np (length control_data));
          treatment_se = np_div np (np_std np treatment_data)
                           (np_sqrt_len np (length treatment_data));
          pooled_se = np_sqrt np (np_add np (np_square np control_se) (np_square np treatment_se))
      in np_div np (np_sub np treatment_mean control_mean) pooled_se)"

definition msprt_test :: "'f numpy \<Rightarrow> real list \<Rightarrow> real list \<Rightarrow> test_result" where
  "msprt_test np control_data treatment_data =
     (if length control_data < 10 \<or> length treatment_data < 10 then
        \<lparr>test_decision = ''extend'', test_confidence = 1/2, test_reason = ''insufficient_data''\<rparr>
      else
        let effect_size = effect_size_of np control_data treatment_data;
            critical_value = round_double (196/100)
        in if np_gt np effect_size critical_value then
             \<lparr>test_decision = ''ship_treatment'', test_confidence = 95/100,
              test_reason = ''significant_positive''\<rparr>
           else if np_lt np effect_size (- critical_value) then
             \<lparr>test_decision = ''ship_control'', test_confidence = 95/100,
              test_reason = ''significant_negative''\<rparr>
           else
             \<lparr>test_decision = ''extend'', test_confidence = 1/2,
              test_reason = ''no_significant_difference''\<rparr>)"

subsection \<open>Regular expressions of the advisory parser\<close>

text \<open>
  The advisory reply is a Python \<^verbatim>\<open>str\<close>; the model covers ASCII replies, one \<open>char\<close>
  per code point. The character classes are those of \<^verbatim>\<open>re\<close> on ASCII: \<^verbatim>\<open>\s\<close> is
  tab, line feed, vertical tab, form feed, carriage return, the four separators
  \<^verbatim>\<open>\x1c\<close> to \<^verbatim>\<open>\x1f\<close> and space; \<^verbatim>\<open>\w\<close> is a letter, a digit or the underscore;
  \<^verbatim>\<open>\d\<close> is a digit; \<^verbatim>\<open>.\<close> is any character but the line feed.
\<close>

definition is_space :: "char \<Rightarrow> bool" where
  "is_space c \<longleftrightarrow>
     c \<in> {CHR 0x09, CHR 0x0A, CHR 0x0B, CHR 0x0C, CHR 0x0D,
          CHR 0x1C, CHR 0x1D, CHR 0x1E, CHR 0x1F, CHR 0x20}"

definition is_digit :: "char \<Rightarrow> bool" where
  "is_digit c \<longleftrightarrow> c \<in> set ''0123456789''"

definition is_word :: "char \<Rightarrow> bool" where
  "is_word c \<longleftrightarrow>
     c \<in> set ''abcdefghijklmnopqrstuvwxyzABCDEFGHIJKLMNOPQRSTUVWXYZ0123456789_''"

definition is_digit_or_dot :: "char \<Rightarrow> bool" where
  "is_digit_or_dot c \<longleftrightarrow> is_digit c \<or> c = CHR ''.''"

definition not_newline :: "char \<Rightarrow> bool" where
  "not_newline c \<longleftrightarrow> c \<noteq> CHR 0x0A"

definition to_lower :: "char \<Rightarrow> char" where
  "to_lower c =
     (case map_of (zip ''ABCDEFGHIJKLMNOPQRSTUVWXYZ'' ''abcdefghijklmnopqrstuvwxyz'') c of
        Some l \<Rightarrow> l
      | None \<Rightarrow> c)"

definition lower :: "string \<Rightarrow> string" where
  "lower s = map to_lower s"

text \<open>A literal of the pattern matched at the start of \<open>s\<close> under \<^verbatim>\<open>re.IGNORECASE\<close>.\<close>

definition starts_with_ci :: "string \<Rightarrow> string \<Rightarrow> bool" where
  "starts_with_ci tok s \<longleftrightarrow> lower (take (length tok) s) = lower tok"

text \<open>
  \<^verbatim>\<open>\s*(C+)\<close> anchored at the start of the string, for a character class \<open>C\<close>: the
  greedy \<^verbatim>\<open>\s*\<close> first takes all the white space and gives characters back one at a
  time while the group cannot start; the group is the longest run of \<open>C\<close>.
\<close>

fun group_after_ws :: "(char \<Rightarrow> bool) \<Rightarrow> string \<Rightarrow> string option" where
  "group_after_ws C [] = None"
| "group_after_ws C (c # cs) =
     (if is_space c then
        (case group_after_ws C cs of
           Some grp \<Rightarrow> Some grp
         | None \<Rightarrow> if C c then Some (takeWhile C (c # cs)) else None)
      else if C c then Some (takeWhile C (c # cs)) else None)"

text \<open>
  \<^verbatim>\<open>re.search(tok + r"\s*(C+)", s, re.IGNORECASE)\<close>, reduced to \<^verbatim>\<open>group(1)\<close> of the
  match: the leftmost position where the whole pattern matches.
\<close>

fun re_search :: "string \<Rightarrow> (char \<Rightarrow> bool) \<Rightarrow> string \<Rightarrow> string option" where
  "re_search tok C [] = None"
| "re_search tok C (c # cs) =
     (if starts_with_ci tok (c # cs) then
        (case group_after_ws C (drop (length tok) (c # cs)) of
           Some grp \<Rightarrow> Some grp
         | None \<Rightarrow> re_search tok C cs)
      else re_search tok C cs)"

text \<open>
  \<^verbatim>\<open>float(s)\<close> on a string of digits and dots, which is all that the pattern
  \<^verbatim>\<open>[\d.]+\<close> captures: at most one dot and at least one digit, else \<^verbatim>\<open>ValueError\<close>.
\<close>

definition digit_val :: "char \<Rightarrow> nat" where
  "digit_val c = (case map_of (zip ''0123456789'' [0, 1, 2, 3, 4, 5, 6, 7, 8, 9]) c of Some d \<Rightarrow> d | None \<Rightarrow> 0)"

definition digits_val :: "string \<Rightarrow> nat" where
  "digits_val ds = foldl (\<lambda>acc c. 10 * acc + digit_val c) 0 ds"

definition py_float :: "string \<Rightarrow> error + real" where
  "py_float s =
     (let ip = takeWhile is_digit s; rest = dropWhile is_digit s
      in case rest of
           [] \<Rightarrow> if ip = [] then Inl (Error (''could not convert string to float: '' @ s))
                 else Inr (real (digits_val ip))
         | c # fp \<Rightarrow>
             if c = CHR ''.'' \<and> list_all is_digit fp \<and> (ip \<noteq> [] \<or> fp \<noteq> [])
             then Inr (real (digits_val ip) + real (digits_val fp) / 10 ^ length fp)
             else Inl (Error (''could not convert string to float: '' @ s)))"

subsection \<open>\<^verbatim>\<open>use_ai_analyst\<close>\<close>

text \<open>
  The advisory reviewer is external. Its part of the \<^verbatim>\<open>try\<close> block (creating the chat,
  \<^verbatim>\<open>a_initiate_chat\<close>, reading \<^verbatim>\<open>chat_history[-1]\<close>) is the parameter \<open>ai\<close>: \<open>Inl e\<close>
  when any of it raises, \<open>Inr ai_response\<close> otherwise. The experiment key and the spec
  only enter the prompt.
\<close>

definition ai_confidence_of :: "string \<Rightarrow> error + real" where
  "ai_confidence_of ai_response =
     (case re_search ''CONFIDENCE:'' is_digit_or_dot ai_response of
        Some c \<Rightarrow> py_float c
      | None \<Rightarrow> Inr (8/10))"

definition ai_rationale_of :: "string \<Rightarrow> string" where
  "ai_rationale_of ai_response =
     (case re_search ''RATIONALE:'' not_newline ai_response of
        Some r \<Rightarrow> r
      | None \<Rightarrow> ''AI analysis'')"

definition use_ai_body :: "(error + string) \<Rightarrow> analysis \<Rightarrow> error + analysis" where
  "use_ai_body ai analysis_result =
     (case ai of
        Inl e \<Rightarrow> Inl e
      | Inr ai_response \<Rightarrow>
          (case re_search ''DECISION:'' is_word ai_response of
             Some d \<Rightarrow>
               let ai_decision = lower d
               in (case ai_confidence_of ai_response of
                     Inl e \<Rightarrow> Inl e
                   | Inr ai_confidence \<Rightarrow>
                       let ai_rationale = ai_rationale_of ai_response
                       in if ai_confidence > confidence analysis_result then
                            Inr \<lparr>decision = ai_decision, confidence = ai_confidence,
                                 sample_size = sample_size analysis_result,
                                 reason = ''AI override: '' @ ai_rationale,
                                 prob_treatment_better = None, ai_override = True\<rparr>
                          else Inr analysis_result)
           | None \<Rightarrow> Inr analysis_result))"

text \<open>\<^verbatim>\<open>use_ai_analyst\<close>: the \<^verbatim>\<open>except Exception\<close> clause returns the numeric result.\<close>

definition use_ai_analyst :: "(error + string) \<Rightarrow> analysis \<Rightarrow> analysis" where
  "use_ai_analyst ai analysis_result =
     (case use_ai_body ai analysis_result of
        Inl e \<Rightarrow> analysis_result
      | Inr r \<Rightarrow> r)"

subsection \<open>\<^verbatim>\<open>handle_experiment_decision\<close> and \<^verbatim>\<open>on_monitor_experiment\<close>\<close>

text \<open>
  What a tick does to the outside is the list of its calls, in order: the write to the
  store, the chat notification, the sleep, the publish and the reject. Log lines are
  left out, and so is the acknowledgement made by the \<^verbatim>\<open>msg.process()\<close> context
  manager, which belongs to the queue library.
\<close>

record outcome =
  outcome_decision :: string
  outcome_confidence :: real
  final_sample_size :: int
  outcome_reason :: string
  timestamp :: real

datatype effect =
    StoreExperiment string outcome
  | PostExperimentDecision string string real int
  | Sleep nat
  | Publish string string string
  | Reject bool

text \<open>
  \<open>StoreExperiment key outcome\<close> is \<^verbatim>\<open>self.memory.store_experiment(key, {}, outcome)\<close>;
  \<open>PostExperimentDecision\<close> is \<^verbatim>\<open>self.slack.post_experiment_decision\<close>;
  \<open>Publish routing_key experiment_key status\<close> is the call of \<^verbatim>\<open>publish\<close> with the
  payload of these two fields; \<open>Reject requeue\<close> is \<^verbatim>\<open>msg.reject(requeue=...)\<close>.

  \<^verbatim>\<open>handle_experiment_decision\<close>: \<open>now\<close> is the clock of the event loop. The chat call
  may raise; the \<^verbatim>\<open>except\<close> clause logs, and nothing after the call reaches the
  outside, so the calls made are the same. The GitHub branch only builds a string and
  logs.
\<close>

definition handle_experiment_decision ::
  "worker \<Rightarrow> real \<Rightarrow> string \<Rightarrow> string \<Rightarrow> real \<Rightarrow> int \<Rightarrow> string \<Rightarrow> effect list" where
  "handle_experiment_decision self now experiment_key dec conf size_n rsn =
     (let outcome = \<lparr>outcome_decision = dec, outcome_confidence = conf,
                     final_sample_size = size_n, outcome_reason = rsn, timestamp = now\<rparr>;
          similar_experiments = memory self experiment_key
      in (if similar_experiments \<noteq> [] then [StoreExperiment experiment_key outcome] else [])
         @ [PostExperimentDecision experiment_key dec conf size_n])"

text \<open>
  The publish statement is
  \<^verbatim>\<open>await msg.channel.default_exchange.publish(msg.reply(...), routing_key="exp.monitor")\<close>.
  Python evaluates \<^verbatim>\<open>msg.channel.default_exchange.publish\<close> and then the argument
  \<^verbatim>\<open>msg.reply(...)\<close> before it calls \<^verbatim>\<open>publish\<close>. What the message object of the queue
  library does there is a parameter of the tick: \<open>NotCalled e\<close> when one of these raises
  \<open>e\<close>, so that \<^verbatim>\<open>publish\<close> is never called, and \<open>Called r\<close> when \<^verbatim>\<open>publish\<close> is called,
  with \<open>r\<close> the exception of the call, if it raises.
\<close>

datatype publish_statement = NotCalled error | Called "error option"

text \<open>
  One delivery of a message. \<open>msg_body\<close> is \<^verbatim>\<open>json.loads(msg.body.decode())\<close> followed by
  the lookup of \<^verbatim>\<open>"experiment_key"\<close>: \<open>Inl\<close> when the body is malformed. \<open>ai_reply\<close> is
  the advisory reviewer's part of \<^verbatim>\<open>use_ai_analyst\<close>, \<open>loop_time\<close> the clock,
  \<open>publish\<close> the course of the publish statement.
\<close>

record tick =
  msg_body :: "error + string"
  ai_reply :: "error + string"
  loop_time :: real
  publish :: publish_statement

definition on_monitor_experiment :: "worker \<Rightarrow> rng \<Rightarrow> tick \<Rightarrow> effect list \<times> rng" where
  "on_monitor_experiment self g t =
     (case msg_body t of
        Inl e \<Rightarrow> ([Reject False], g)
      | Inr experiment_key \<Rightarrow>
          (case memory self experiment_key of
             [] \<Rightarrow> ([], g)
           | experiment_data # _ \<Rightarrow>
               let sp = metadata experiment_data
               in (case analyze_experiment self g experiment_key sp of
                     (analysis_result, g') \<Rightarrow>
                       let final_result = use_ai_analyst (ai_reply t) analysis_result;
                           handled = handle_experiment_decision self (loop_time t) experiment_key
                                       (decision final_result) (confidence final_result)
                                       (sample_size final_result) (reason final_result)
                       in if decision final_result = ''extend'' then
                            (handled
                             @ [Sleep (monitoring_interval self)]
                             @ (case publish t of
                                  NotCalled e \<Rightarrow> [Reject False]
                                | Called None \<Rightarrow>
                                    [Publish ''exp.monitor'' experiment_key
                                       ''continue_monitoring'']
                                | Called (Some e) \<Rightarrow>
                                    [Publish ''exp.monitor'' experiment_key
                                       ''continue_monitoring'',
                                     Reject False]),
                             g')
                          else (handled, g'))))"

subsection \<open>Auxiliary notions for the statements\<close>

text \<open>
  The inputs on which a call of \<^verbatim>\<open>np.random.beta\<close> inside \<^verbatim>\<open>bayes_prob_better\<close>
  raises: a negative success count, more successes than observations, a negative number
  of simulations, or a posterior parameter that is too large for a float.
\<close>

definition degenerate :: "int \<Rightarrow> int \<Rightarrow> int \<Rightarrow> int \<Rightarrow> int \<Rightarrow> bool" where
  "degenerate suc_a tot_a suc_b tot_b sims \<longleftrightarrow>
     suc_a < 0 \<or> tot_a < suc_a \<or> suc_b < 0 \<or> tot_b < suc_b \<or> sims < 0 \<or>
     overflows (real_of_int (suc_a + 1)) \<or> overflows (real_of_int (tot_a - suc_a + 1)) \<or>
     overflows (real_of_int (suc_b + 1)) \<or> overflows (real_of_int (tot_b - suc_b + 1))"

text \<open>The counts for which a rate of the mean branch is too large for a float.\<close>

definition rate_overflow :: "counts \<Rightarrow> bool" where
  "rate_overflow c =
     (case c of (suc_c, tot_c, suc_t, tot_t) \<Rightarrow>
        (tot_c > 0 \<and> overflows (real_of_int suc_c / real_of_int tot_c)) \<or>
        (tot_t > 0 \<and> overflows (real_of_int suc_t / real_of_int tot_t)))"

text \<open>
  A generator state for concrete runs: its first 20000 numbers (the control draws of a
  default call) are \<open>0.096\<close>; of its next 20000 numbers (the treatment draws) the first
  \<open>k\<close> are \<open>0.104\<close> and the others \<open>0.09\<close>.
\<close>

definition split_rng :: "nat \<Rightarrow> rng" where
  "split_rng k a b i =
     (if i < 20000 then 96/1000 else if i < 20000 + k then 104/1000 else 90/1000)"

text \<open>The terminal decisions of the lifecycle.\<close>

definition terminal :: "string \<Rightarrow> bool" where
  "terminal d \<longleftrightarrow> d = ''ship_treatment'' \<or> d = ''ship_control'' \<or> d = ''stop''"

text \<open>
  An instance of the numpy operations for concrete runs of \<^verbatim>\<open>msprt_test\<close>: the operations
  in exact arithmetic (\<^verbatim>\<open>np.std\<close> is the population standard deviation).
\<close>

definition ideal_numpy :: "real numpy" where
  "ideal_numpy =
     \<lparr>np_mean = (\<lambda>xs. sum_list xs / real (length xs)),
      np_std = (\<lambda>xs. sqrt (sum_list (map (\<lambda>x. (x - sum_list xs / real (length xs))\<^sup>2) xs)
                                / real (length xs))),
      np_sqrt_len = (\<lambda>n. sqrt (real n)),
      np_sqrt = sqrt,
      np_div = (\<lambda>x y. x / y),
      np_square = (\<lambda>x. x\<^sup>2),
      np_add = (\<lambda>x y. x + y),
      np_sub = (\<lambda>x y. x - y),
      np_gt = (\<lambda>x y. x > y),
      np_lt = (\<lambda>x y. x < y)\<rparr>"

section \<open>Properties\<close>

subsection \<open>Facts about the Bayesian test\<close>

lemma bayes_body_ok:
  "\<not> degenerate suc_a tot_a suc_b tot_b sims \<Longrightarrow>
   bayes_body g suc_a tot_a suc_b tot_b sims =
     (Inr (mean_greater
             (map (\<lambda>i. g (suc_b + 1) (tot_b - suc_b + 1) (i + nat sims)) [0..<nat sims])
             (map (g (suc_a + 1) (tot_a - suc_a + 1)) [0..<nat sims])),
      \<lambda>a b i. g a b (i + nat sims + nat sims))"
  by (auto simp add: bayes_body_def np_random_beta_def degenerate_def Let_def add.assoc)

lemma bayes_degenerate:
  "degenerate suc_a tot_a suc_b tot_b sims \<Longrightarrow>
   fst (bayes_prob_better g suc_a tot_a suc_b tot_b sims) = Fl (1/2)"
  by (auto simp add: bayes_prob_better_def bayes_body_def np_random_beta_def degenerate_def Let_def)

lemma mean_greater_map:
  assumes "0 < n"
  shows "mean_greater (map f [0..<n]) (map h [0..<n]) =
     Fl (real (length (filter (\<lambda>i. f i > h i) [0..<n])) / real n)"
proof -
  have z: "zip (map f [0..<n]) (map h [0..<n]) = map (\<lambda>i. (f i, h i)) [0..<n]"
    by (simp add: zip_map_map zip_same_conv_map)
  have "length (filter (\<lambda>(b, a). b > a) (map (\<lambda>i. (f i, h i)) [0..<n])) =
        length (filter (\<lambda>i. f i > h i) [0..<n])"
    by (simp add: filter_map comp_def)
  then show ?thesis
    using assms by (simp add: mean_greater_def z)
qed

lemma count_below: "k \<le> n \<Longrightarrow> length (filter (\<lambda>i. i < k) [0..<n]) = k"
proof -
  assume kn: "k \<le> n"
  have "[0..<n] = [0..<k] @ [k..<n]"
    using kn by (metis le0 upt_add_eq_append le_add_diff_inverse)
  then have "filter (\<lambda>i. i < k) [0..<n] = filter (\<lambda>i. i < k) [0..<k] @ filter (\<lambda>i. i < k) [k..<n]"
    by simp
  also have "filter (\<lambda>i. i < k) [0..<k] = [0..<k]" by (simp add: filter_id_conv)
  also have "filter (\<lambda>i. i < k) [k..<n] = []" by (simp add: filter_empty_conv)
  finally show ?thesis by simp
qed

lemma bayes_default_is_fraction:
  "\<exists>p g'. bayes_prob_better g suc_a tot_a suc_b tot_b 20000 = (Fl p, g')"
proof (cases "degenerate suc_a tot_a suc_b tot_b 20000")
  case True
  then show ?thesis
    using bayes_degenerate [OF True, of g] by (metis prod.collapse)
next
  case False
  let ?sb = "\<lambda>i. g (suc_b + 1) (tot_b - suc_b + 1) (i + 20000)"
  let ?sa = "g (suc_a + 1) (tot_a - suc_a + 1)"
  have "mean_greater (map ?sb [0..<20000]) (map ?sa [0..<20000]) =
          Fl (real (length (filter (\<lambda>i. ?sb i > ?sa i) [0..<20000])) / real 20000)"
    by (rule mean_greater_map) simp
  then have "\<exists>p. mean_greater (map ?sb [0..<20000]) (map ?sa [0..<20000]) = Fl p"
    by (rule exI)
  then show ?thesis
    by (simp add: bayes_prob_better_def bayes_body_ok [OF False])
qed

lemma bayes_split_rng:
  assumes "k \<le> 20000" and "\<not> degenerate suc_a tot_a suc_b tot_b 20000"
  shows "fst (bayes_prob_better (split_rng k) suc_a tot_a suc_b tot_b 20000) =
           Fl (real k / 20000)"
proof -
  let ?sb = "\<lambda>i. split_rng k (suc_b + 1) (tot_b - suc_b + 1) (i + 20000)"
  let ?sa = "split_rng k (suc_a + 1) (tot_a - suc_a + 1)"
  have "filter (\<lambda>i. ?sb i > ?sa i) [0..<20000] = filter (\<lambda>i. i < k) [0..<20000]"
    by (rule filter_cong) (auto simp add: split_rng_def)
  then have "length (filter (\<lambda>i. ?sb i > ?sa i) [0..<20000]) = k"
    using count_below [OF assms(1)] by simp
  then show ?thesis
    using mean_greater_map [of 20000 ?sb ?sa]
    by (simp add: bayes_prob_better_def bayes_body_ok [OF assms(2)])
qed

subsection \<open>Facts about double arithmetic\<close>

text \<open>
  The doubles that the literals and quotients of the examples denote, as fractions with a
  power of two below: \<^verbatim>\<open>0.1 * 0.9\<close> is \<open>0.09000000000000001\<close>, which is larger than the
  double \<^verbatim>\<open>0.09\<close>, and \<^verbatim>\<open>0.565 * 1.1\<close> is \<open>0.6214999999999999\<close>, which is smaller than the
  double \<^verbatim>\<open>0.6215\<close>.
\<close>

lemmas double_eval = round_double_def quantum_def pow2_def ilog2.simps rne_def Let_def
  overflows_def int_true_div_def float_mul_def

lemma rd_1_10: "round_double (1/10) = 3602879701896397 / 2 ^ 55"
  by (simp add: double_eval)

lemma rd_9_100: "round_double (9/100) = 3242591731706757 / 2 ^ 55"
  by (simp add: double_eval)

lemma rd_2_10: "round_double (2/10) = 3602879701896397 / 2 ^ 54"
  by (simp add: double_eval)

lemma rd_11_10: "round_double (11/10) = 2476979795053773 / 2 ^ 51"
  by (simp add: double_eval)

lemma rd_9_10: "round_double (9/10) = 8106479329266893 / 2 ^ 53"
  by (simp add: double_eval)

lemma rd_196_100: "round_double (196/100) = 2206763817411543 / 2 ^ 50"
  by (simp add: double_eval)

lemma mul_1_10_by_9_10:
  "float_mul (round_double (1/10)) (round_double (9/10)) = Finite (6485183463413515 / 2 ^ 56)"
  unfolding rd_1_10 rd_9_10 by (simp add: double_eval)

lemma mul_1_10_by_11_10:
  "float_mul (round_double (1/10)) (round_double (11/10)) = Finite (3963167672086037 / 2 ^ 55)"
  unfolding rd_1_10 rd_11_10 by (simp add: double_eval)

lemma div_1_10: "int_true_div 100 1000 = Inr (round_double (1/10))"
  by (simp add: int_true_div_def overflows_def)

lemma div_2_10: "int_true_div 200 1000 = Inr (round_double (2/10))"
  by (simp add: int_true_div_def overflows_def)

lemma div_9_100: "int_true_div 90 1000 = Inr (round_double (9/100))"
  by (simp add: int_true_div_def overflows_def)

lemma mean_decision_100_200:
  "mean_decision (100, 1000, 200, 1000) 2000 =
     Inr \<lparr>decision = ''ship_treatment'', confidence = 9/10, sample_size = 2000,
          reason = ''Treatment shows improvement'',
          prob_treatment_better = None, ai_override = False\<rparr>"
proof -
  have "float_gt (round_double (2/10)) (float_mul (round_double (1/10)) (round_double (11/10)))"
    unfolding mul_1_10_by_11_10 rd_2_10 by simp
  then show ?thesis
    by (simp only: mean_decision_def prod.case div_1_10 div_2_10 sum.case if_True)
      simp
qed

lemma not_gt_9_100:
  "\<not> float_gt (round_double (9/100)) (float_mul (round_double (1/10)) (round_double (11/10)))"
  unfolding mul_1_10_by_11_10 rd_9_100 by simp

lemma lt_9_100:
  "float_lt (round_double (9/100)) (float_mul (round_double (1/10)) (round_double (9/10)))"
  unfolding mul_1_10_by_9_10 rd_9_100 by simp

lemma rd_565_1000: "round_double (565/1000) = 1272266894732165 / 2 ^ 51"
  by (simp add: double_eval)

lemma rd_1243_2000: "round_double (1243/2000) = 5597974336821527 / 2 ^ 53"
  by (simp add: double_eval)

lemma mul_565_1000_by_11_10:
  "float_mul (round_double (565/1000)) (round_double (11/10)) = Finite (2798987168410763 / 2 ^ 52)"
  unfolding rd_565_1000 rd_11_10 by (simp add: double_eval)

lemma div_565_1000: "int_true_div 565 1000 = Inr (round_double (565/1000))"
  by (simp add: int_true_div_def overflows_def)

lemma div_1243_2000: "int_true_div 1243 2000 = Inr (round_double (1243/2000))"
  by (simp add: int_true_div_def overflows_def)

text \<open>
  Two runs of the \<^verbatim>\<open>"mean"\<close> branch where the rounding of the product decides: with the
  counts \<open>(565, 1000, 1243, 2000)\<close> the treatment rate \<open>0.6215\<close> exceeds the double
  \<^verbatim>\<open>0.565 * 1.1\<close>; with a success count of \<open>2\<^sup>1\<^sup>0\<^sup>2\<^sup>4\<close> over a total of \<open>1\<close> the
  quotient is too large for a float.
\<close>

lemma mean_decision_565_1243:
  "mean_decision (565, 1000, 1243, 2000) 3000 =
     Inr \<lparr>decision = ''ship_treatment'', confidence = 9/10, sample_size = 3000,
          reason = ''Treatment shows improvement'',
          prob_treatment_better = None, ai_override = False\<rparr>"
proof -
  have "float_gt (round_double (1243/2000))
          (float_mul (round_double (565/1000)) (round_double (11/10)))"
    unfolding mul_565_1000_by_11_10 rd_1243_2000 by simp
  then show ?thesis
    by (simp only: mean_decision_def prod.case div_565_1000 div_1243_2000 sum.case if_True)
      simp
qed

lemma mean_decision_overflow:
  "mean_decision (2 ^ 1024, 1, 1, 1) (2 :: int) =
     Inl (Error ''integer division result too large for a float'')"
  by (simp add: mean_decision_def int_true_div_def overflows_def)

subsection \<open>Facts about the advisory parser\<close>

lemma starts_with_ci_Nil: "starts_with_ci [] s"
  by (simp add: starts_with_ci_def lower_def)

lemma starts_with_ci_Cons:
  "starts_with_ci (t # ts) (c # cs) \<longleftrightarrow> to_lower c = to_lower t \<and> starts_with_ci ts cs"
  by (simp add: starts_with_ci_def lower_def)

lemma starts_with_ci_short: "\<not> starts_with_ci (t # ts) []"
  by (simp add: starts_with_ci_def lower_def)

lemma to_lower_range:
  "to_lower c = c \<or> to_lower c \<in> set ''abcdefghijklmnopqrstuvwxyz''"
proof (cases "map_of (zip ''ABCDEFGHIJKLMNOPQRSTUVWXYZ'' ''abcdefghijklmnopqrstuvwxyz'') c")
  case None
  then have "to_lower c = c" by (simp only: to_lower_def option.case)
  then show ?thesis by blast
next
  case (Some l)
  then have "(c, l) \<in> set (zip ''ABCDEFGHIJKLMNOPQRSTUVWXYZ'' ''abcdefghijklmnopqrstuvwxyz'')"
    by (rule map_of_SomeD)
  then have "l \<in> set ''abcdefghijklmnopqrstuvwxyz''"
    by (rule set_zip_rightD)
  moreover have "to_lower c = l"
    using Some by (simp only: to_lower_def option.case)
  ultimately show ?thesis by metis
qed

lemma to_lower_colon: "to_lower c = CHR '':'' \<Longrightarrow> c = CHR '':''"
proof -
  assume a: "to_lower c = CHR '':''"
  have "CHR '':'' \<notin> set ''abcdefghijklmnopqrstuvwxyz''"
    by simp
  then show ?thesis
    using a to_lower_range [of c] by metis
qed

lemma starts_with_ci_colon:
  assumes "starts_with_ci tok s" and "CHR '':'' \<in> set tok"
  shows "CHR '':'' \<in> set s"
proof -
  have "to_lower CHR '':'' = CHR '':''"
    by (simp add: to_lower_def)
  then have "CHR '':'' \<in> set (lower tok)"
    using assms(2) by (force simp add: lower_def)
  then have "CHR '':'' \<in> set (lower (take (length tok) s))"
    using assms(1) by (simp add: starts_with_ci_def)
  then obtain c where "c \<in> set (take (length tok) s)" and "to_lower c = CHR '':''"
    by (auto simp add: lower_def)
  then show ?thesis
    using to_lower_colon by (metis in_set_takeD)
qed

lemma re_search_no_colon:
  "CHR '':'' \<notin> set s \<Longrightarrow> CHR '':'' \<in> set tok \<Longrightarrow> re_search tok C s = None"
proof (induction s)
  case Nil
  then show ?case by simp
next
  case (Cons c cs)
  have "\<not> starts_with_ci tok (c # cs)"
    using Cons.prems starts_with_ci_colon by blast
  then show ?case
    using Cons by simp
qed

lemma word_not_space: "is_word c \<Longrightarrow> \<not> is_space c"
  by (auto simp add: is_word_def is_space_def)

lemma word_not_colon: "is_word c \<Longrightarrow> c \<noteq> CHR '':''"
  by (auto simp add: is_word_def)

lemma group_word:
  assumes "w \<noteq> []" and "\<forall>c\<in>set w. is_word c"
  shows "group_after_ws is_word w = Some w"
proof -
  obtain c cs where w: "w = c # cs"
    using assms(1) by (cases w) auto
  have "takeWhile is_word w = w"
    using assms(2) by (simp add: takeWhile_eq_all_conv)
  then show ?thesis
    using assms(2) w word_not_space [of c] by auto
qed

lemmas starts_with_ci_eval = starts_with_ci_Nil starts_with_ci_Cons starts_with_ci_short

lemma search_decision_word:
  assumes "w \<noteq> []" and "\<forall>c\<in>set w. is_word c"
  shows "re_search ''DECISION:'' is_word (''DECISION: '' @ w) = Some w"
  using group_word [OF assms]
  by (simp add: starts_with_ci_eval is_space_def)

lemma search_confidence_absent:
  assumes "\<forall>c\<in>set w. is_word c"
  shows "re_search ''CONFIDENCE:'' C (''DECISION: '' @ w) = None"
proof -
  have nc: "CHR '':'' \<notin> set w"
    using assms word_not_colon by blast
  show ?thesis
    using re_search_no_colon [OF nc, of "''CONFIDENCE:''" C]
    by (simp add: starts_with_ci_eval to_lower_def)
qed

lemma search_rationale_absent:
  assumes "\<forall>c\<in>set w. is_word c"
  shows "re_search ''RATIONALE:'' C (''DECISION: '' @ w) = None"
proof -
  have nc: "CHR '':'' \<notin> set w"
    using assms word_not_colon by blast
  show ?thesis
    using re_search_no_colon [OF nc, of "''RATIONALE:''" C]
    by (simp add: starts_with_ci_eval to_lower_def)
qed

text \<open>
  A reply that consists of \<open>DECISION: \<close> and a word: the word is captured, no confidence
  and no rationale are found, and a numeric result of confidence below \<open>0.8\<close> is replaced.
\<close>

lemma use_ai_decision_only:
  assumes "w \<noteq> []" and "\<forall>c\<in>set w. is_word c" and "confidence analysis_result < 8/10"
  shows "use_ai_analyst (Inr (''DECISION: '' @ w)) analysis_result =
        \<lparr>decision = lower w, confidence = 8/10, sample_size = sample_size analysis_result,
         reason = ''AI override: AI analysis'',
         prob_treatment_better = None, ai_override = True\<rparr>"
proof -
  have d: "re_search ''DECISION:'' is_word (''DECISION: '' @ w) = Some w"
    using assms search_decision_word by blast
  have c: "re_search ''CONFIDENCE:'' is_digit_or_dot (''DECISION: '' @ w) = None"
    using assms search_confidence_absent by blast
  have r: "re_search ''RATIONALE:'' not_newline (''DECISION: '' @ w) = None"
    using assms search_rationale_absent by blast
  have "use_ai_body (Inr (''DECISION: '' @ w)) analysis_result =
        Inr \<lparr>decision = lower w, confidence = 8/10, sample_size = sample_size analysis_result,
         reason = ''AI override: '' @ ''AI analysis'',
         prob_treatment_better = None, ai_override = True\<rparr>"
    using assms(3)
    by (simp only: use_ai_body_def ai_confidence_of_def ai_rationale_of_def
        d c r Let_def option.case sum.case if_True)
  then show ?thesis
    by (simp only: use_ai_analyst_def sum.case append.simps)
qed

lemmas search_eval = starts_with_ci_eval to_lower_def is_word_def is_space_def
  is_digit_or_dot_def is_digit_def not_newline_def

text \<open>
  An override with a reported confidence: \<open>0.97\<close> against \<open>0.96\<close>.
\<close>

lemma override_example:
  "use_ai_analyst (Inr ''DECISION: stop CONFIDENCE: 0.97'')
      \<lparr>decision = ''ship_treatment'', confidence = 96/100, sample_size = 10000,
       reason = ''Strong evidence treatment is better'',
       prob_treatment_better = Some (Fl (96/100)), ai_override = False\<rparr> =
      \<lparr>decision = ''stop'', confidence = 97/100, sample_size = 10000,
       reason = ''AI override: AI analysis'',
       prob_treatment_better = None, ai_override = True\<rparr>"
proof -
  have d: "re_search ''DECISION:'' is_word ''DECISION: stop CONFIDENCE: 0.97'' = Some ''stop''"
    by (simp add: search_eval)
  have c: "re_search ''CONFIDENCE:'' is_digit_or_dot ''DECISION: stop CONFIDENCE: 0.97'' = Some ''0.97''"
    by (simp add: search_eval)
  have r: "re_search ''RATIONALE:'' not_newline ''DECISION: stop CONFIDENCE: 0.97'' = None"
    by (simp add: search_eval)
  have f: "py_float ''0.97'' = Inr (97/100)"
    by (simp add: py_float_def is_digit_def digits_val_def digit_val_def)
  have l: "lower ''stop'' = ''stop''"
    by (simp add: lower_def to_lower_def)
  show ?thesis
    by (simp add: use_ai_analyst_def use_ai_body_def ai_confidence_of_def ai_rationale_of_def
        d c r f l del: re_search.simps)
qed

subsection \<open>The decision engine\<close>



text \<open>
  C2 (rate-metric decision rule). For a spec whose metric type is \<open>rate\<close> (given or by
  default) and counts that pass the gate, the analysis calls \<^verbatim>\<open>bayes_prob_better\<close> on the
  counts with 20000 simulations; the call returns a number \<open>P\<close> (never \<open>NaN\<close>), the result
  carries \<open>prob_treatment_better = P\<close>, and the decision is \<open>ship_treatment\<close> with
  confidence \<open>P\<close> when \<open>P \<ge> 0.95\<close>, \<open>ship_control\<close> with confidence \<open>1 - P\<close> when
  \<open>P \<le> 0.05\<close>, and \<open>extend\<close> with confidence \<open>0.5\<close> in between.
\<close>


theorem rate_decision_rule:
  assumes "posthog self experiment_key = Inr (suc_c, tot_c, suc_t, tot_t)"
      and "min_sample_of sp \<le> tot_c + tot_t"
      and "metric_type_of sp = ''rate''"
  shows "\<exists>p g'. bayes_prob_better g suc_c tot_c suc_t tot_t 20000 = (Fl p, g') \<and>
           snd (analyze_experiment self g experiment_key sp) = g' \<and>
           prob_treatment_better (fst (analyze_experiment self g experiment_key sp)) = Some (Fl p) \<and>
           sample_size (fst (analyze_experiment self g experiment_key sp)) = tot_c + tot_t \<and>
           (95/100 \<le> p \<longrightarrow>
              decision (fst (analyze_experiment self g experiment_key sp)) = ''ship_treatment'' \<and>
              confidence (fst (analyze_experiment self g experiment_key sp)) = p) \<and>
           (p \<le> 5/100 \<longrightarrow>
              decision (fst (analyze_experiment self g experiment_key sp)) = ''ship_control'' \<and>
              confidence (fst (analyze_experiment self g experiment_key sp)) = 1 - p) \<and>
           (5/100 < p \<and> p < 95/100 \<longrightarrow>
              decision (fst (analyze_experiment self g experiment_key sp)) = ''extend'' \<and>
              confidence (fst (analyze_experiment self g experiment_key sp)) = 1/2)"
proof -
  obtain p g' where b: "bayes_prob_better g suc_c tot_c suc_t tot_t 20000 = (Fl p, g')"
    using bayes_default_is_fraction by blast
  have a: "analyze_experiment self g experiment_key sp = (rate_decision (Fl p) (tot_c + tot_t), g')"
    using assms b by (simp add: analyze_experiment_def analyze_body_def Let_def)
  show ?thesis
    using b by (auto simp add: a rate_decision_def)
qed

theorem rate_decision_rule_witness:
  "decision (fst (analyze_experiment (MonitoringWorker (\<lambda>k. Inr (900, 1000, 30, 1000)) (\<lambda>k. []) False)
       (split_rng 0) ''exp'' \<lparr>min_sample_size = Some 2000, primary_metric = None\<rparr>)) = ''ship_control''
   \<and> confidence (fst (analyze_experiment (MonitoringWorker (\<lambda>k. Inr (900, 1000, 30, 1000)) (\<lambda>k. []) False)
       (split_rng 0) ''exp'' \<lparr>min_sample_size = Some 2000, primary_metric = None\<rparr>)) = 1
   \<and> prob_treatment_better (fst (analyze_experiment (MonitoringWorker (\<lambda>k. Inr (900, 1000, 30, 1000)) (\<lambda>k. []) False)
       (split_rng 0) ''exp'' \<lparr>min_sample_size = Some 2000, primary_metric = None\<rparr>)) = Some (Fl 0)"
proof -
  have nd: "\<not> degenerate 900 1000 30 1000 20000"
    by (simp add: degenerate_def overflows_def)
  have b: "fst (bayes_prob_better (split_rng 0) 900 1000 30 1000 20000) = Fl 0"
    using bayes_split_rng [of 0, OF _ nd] by (simp add:)
  show ?thesis
    using rate_decision_rule [of "MonitoringWorker (\<lambda>k. Inr (900, 1000, 30, 1000)) (\<lambda>k. []) False"
        "''exp''" 900 1000 30 1000 "\<lparr>min_sample_size = Some 2000, primary_metric = None\<rparr>"
        "split_rng 0"] b
    by (auto simp add: MonitoringWorker_def min_sample_of_def metric_type_of_def)
qed

text \<open>
  C3 (mean-metric dispatch) does not hold as stated. With a \<open>mean\<close> metric and the
  counts \<open>(100, 1000, 200, 1000)\<close> the decision is \<open>ship_treatment\<close>, and its confidence
  is not the \<open>0.95\<close> of the z-style test.
\<close>

theorem mean_dispatch_counterexample:
  "decision (fst (analyze_experiment
       (MonitoringWorker (\<lambda>k. Inr (100, 1000, 200, 1000)) (\<lambda>k. []) False) (\<lambda>a b i. 0) ''exp''
       \<lparr>min_sample_size = Some 2000,
        primary_metric = Some \<lparr>metric_name = Some ''revenue'', metric_type = Some ''mean''\<rparr>\<rparr>))
     = ''ship_treatment''
   \<and> confidence (fst (analyze_experiment
       (MonitoringWorker (\<lambda>k. Inr (100, 1000, 200, 1000)) (\<lambda>k. []) False) (\<lambda>a b i. 0) ''exp''
       \<lparr>min_sample_size = Some 2000,
        primary_metric = Some \<lparr>metric_name = Some ''revenue'', metric_type = Some ''mean''\<rparr>\<rparr>))
     \<noteq> 95/100"
  by (simp add: analyze_experiment_def analyze_body_def MonitoringWorker_def min_sample_of_def
      metric_type_of_def mean_decision_100_200 Let_def)

text \<open>
  C3 as the code has it. For a spec whose metric type is \<open>mean\<close> and counts that pass
  the gate, \<^verbatim>\<open>analyze_experiment\<close> compares the two success rates in double arithmetic
  (the source says that the z-style test would need the metric values, where the fetch
  supplies counts only, and uses a simplified approach). A rate is the quotient of the
  counts rounded to a double, and \<open>0\<close> when its total is not positive; when a quotient is
  too large for a float the result is the error result, \<open>extend\<close> with confidence \<open>0.5\<close>
  and sample size \<open>0\<close>. Otherwise the decision is \<open>ship_treatment\<close> with confidence \<open>0.9\<close>
  when the treatment rate exceeds the double product of the control rate and \<^verbatim>\<open>1.1\<close>,
  \<open>ship_control\<close> with confidence \<open>0.9\<close> when it is below the double product of the control
  rate and \<^verbatim>\<open>0.9\<close>, and \<open>extend\<close> with confidence \<open>0.5\<close> otherwise; no draw is taken from
  the generator. The sequential z-style test is what \<^verbatim>\<open>msprt_test\<close> computes from two
  lists of observations: with fewer than 10 observations in either list it returns
  \<open>extend\<close> with confidence \<open>0.5\<close> and the reason \<open>insufficient_data\<close>; otherwise it
  computes the effect size, the difference of the means divided by the root of the sum of
  the squared standard errors, and returns \<open>ship_treatment\<close> with confidence \<open>0.95\<close> when
  the effect size exceeds \<^verbatim>\<open>1.96\<close>, \<open>ship_control\<close> with confidence \<open>0.95\<close> when it is
  below \<^verbatim>\<open>-1.96\<close>, and \<open>extend\<close> with confidence \<open>0.5\<close> otherwise.
\<close>

theorem mean_metric_dispatch:
  "(posthog self experiment_key = Inr (suc_c, tot_c, suc_t, tot_t) \<and>
    min_sample_of sp \<le> tot_c + tot_t \<and> metric_type_of sp = ''mean'' \<longrightarrow>
      (rate_overflow (suc_c, tot_c, suc_t, tot_t) \<longrightarrow>
         analyze_experiment self g experiment_key sp =
           (\<lparr>decision = ''extend'', confidence = 1/2, sample_size = 0,
             reason = ''Analysis error: integer division result too large for a float'',
             prob_treatment_better = None, ai_override = False\<rparr>, g)) \<and>
      (\<not> rate_overflow (suc_c, tot_c, suc_t, tot_t) \<longrightarrow>
         (\<forall>control_rate treatment_rate.
            control_rate =
              (if tot_c > 0 then round_double (real_of_int suc_c / real_of_int tot_c) else 0) \<and>
            treatment_rate =
              (if tot_t > 0 then round_double (real_of_int suc_t / real_of_int tot_t) else 0) \<longrightarrow>
            analyze_experiment self g experiment_key sp =
              (if float_gt treatment_rate (float_mul control_rate (round_double (11/10))) then
                 \<lparr>decision = ''ship_treatment'', confidence = 9/10,
                  sample_size = tot_c + tot_t, reason = ''Treatment shows improvement'',
                  prob_treatment_better = None, ai_override = False\<rparr>
               else if float_lt treatment_rate (float_mul control_rate (round_double (9/10))) then
                 \<lparr>decision = ''ship_control'', confidence = 9/10,
                  sample_size = tot_c + tot_t, reason = ''Treatment shows degradation'',
                  prob_treatment_better = None, ai_override = False\<rparr>
               else
                 \<lparr>decision = ''extend'', confidence = 1/2,
                  sample_size = tot_c + tot_t, reason = ''No clear difference'',
                  prob_treatment_better = None, ai_override = False\<rparr>, g))))
   \<and> (length control_data < 10 \<or> length treatment_data < 10 \<longrightarrow>
        msprt_test np control_data treatment_data =
          \<lparr>test_decision = ''extend'', test_confidence = 1/2,
           test_reason = ''insufficient_data''\<rparr>)
   \<and> (10 \<le> length control_data \<and> 10 \<le> length treatment_data \<longrightarrow>
        (\<forall>effect_size.
           effect_size =
             np_div np (np_sub np (np_mean np treatment_data) (np_mean np control_data))
               (np_sqrt np
                 (np_add np
                   (np_square np
                     (np_div np (np_std np control_data) (np_sqrt_len np (length control_data))))
                   (np_square np
                     (np_div np (np_std np treatment_data)
                        (np_sqrt_len np (length treatment_data)))))) \<longrightarrow>
           msprt_test np control_data treatment_data =
             (if np_gt np effect_size (round_double (196/100)) then
                \<lparr>test_decision = ''ship_treatment'', test_confidence = 95/100,
                 test_reason = ''significant_positive''\<rparr>
              else if np_lt np effect_size (- round_double (196/100)) then
                \<lparr>test_decision = ''ship_control'', test_confidence = 95/100,
                 test_reason = ''significant_negative''\<rparr>
              else
                \<lparr>test_decision = ''extend'', test_confidence = 1/2,
                 test_reason = ''no_significant_difference''\<rparr>)))"
proof (intro conjI impI allI)
  assume a: "posthog self experiment_key = Inr (suc_c, tot_c, suc_t, tot_t) \<and>
    min_sample_of sp \<le> tot_c + tot_t \<and> metric_type_of sp = ''mean''"
  assume o: "rate_overflow (suc_c, tot_c, suc_t, tot_t)"
  have "mean_decision (suc_c, tot_c, suc_t, tot_t) (tot_c + tot_t) =
          Inl (Error ''integer division result too large for a float'')"
    using o
    by (auto simp add: mean_decision_def rate_overflow_def int_true_div_def split: sum.splits)
  then show "analyze_experiment self g experiment_key sp =
           (\<lparr>decision = ''extend'', confidence = 1/2, sample_size = 0,
             reason = ''Analysis error: integer division result too large for a float'',
             prob_treatment_better = None, ai_override = False\<rparr>, g)"
    using a by (simp add: analyze_experiment_def analyze_body_def Let_def)
next
  fix control_rate treatment_rate :: real
  assume a: "posthog self experiment_key = Inr (suc_c, tot_c, suc_t, tot_t) \<and>
    min_sample_of sp \<le> tot_c + tot_t \<and> metric_type_of sp = ''mean''"
  assume o: "\<not> rate_overflow (suc_c, tot_c, suc_t, tot_t)"
  assume r: "control_rate =
              (if tot_c > 0 then round_double (real_of_int suc_c / real_of_int tot_c) else 0) \<and>
            treatment_rate =
              (if tot_t > 0 then round_double (real_of_int suc_t / real_of_int tot_t) else 0)"
  have c: "(if tot_c > 0 then int_true_div suc_c tot_c else Inr 0) = Inr control_rate"
    using o r by (auto simp add: rate_overflow_def int_true_div_def)
  have t: "(if tot_t > 0 then int_true_div suc_t tot_t else Inr 0) = Inr treatment_rate"
    using o r by (auto simp add: rate_overflow_def int_true_div_def)
  have "analyze_body self g experiment_key sp =
          (mean_decision (suc_c, tot_c, suc_t, tot_t) (tot_c + tot_t), g)"
    using a by (simp add: analyze_body_def Let_def)
  then show "analyze_experiment self g experiment_key sp =
              (if float_gt treatment_rate (float_mul control_rate (round_double (11/10))) then
                 \<lparr>decision = ''ship_treatment'', confidence = 9/10,
                  sample_size = tot_c + tot_t, reason = ''Treatment shows improvement'',
                  prob_treatment_better = None, ai_override = False\<rparr>
               else if float_lt treatment_rate (float_mul control_rate (round_double (9/10))) then
                 \<lparr>decision = ''ship_control'', confidence = 9/10,
                  sample_size = tot_c + tot_t, reason = ''Treatment shows degradation'',
                  prob_treatment_better = None, ai_override = False\<rparr>
               else
                 \<lparr>decision = ''extend'', confidence = 1/2,
                  sample_size = tot_c + tot_t, reason = ''No clear difference'',
                  prob_treatment_better = None, ai_override = False\<rparr>, g)"
    by (simp only: analyze_experiment_def mean_decision_def prod.case c t sum.case)
      (simp split: if_splits)
next
  assume "length control_data < 10 \<or> length treatment_data < 10"
  then show "msprt_test np control_data treatment_data =
          \<lparr>test_decision = ''extend'', test_confidence = 1/2,
           test_reason = ''insufficient_data''\<rparr>"
    by (simp add: msprt_test_def)
next
  fix effect_size
  assume l: "10 \<le> length control_data \<and> 10 \<le> length treatment_data"
  assume e: "effect_size =
             np_div np (np_sub np (np_mean np treatment_data) (np_mean np control_data))
               (np_sqrt np
                 (np_add np
                   (np_square np
                     (np_div np (np_std np control_data) (np_sqrt_len np (length control_data))))
                   (np_square np
                     (np_div np (np_std np treatment_data)
                        (np_sqrt_len np (length treatment_data))))))"
  have "effect_size_of np control_data treatment_data = effect_size"
    by (simp add: effect_size_of_def e Let_def)
  then show "msprt_test np control_data treatment_data =
             (if np_gt np effect_size (round_double (196/100)) then
                \<lparr>test_decision = ''ship_treatment'', test_confidence = 95/100,
                 test_reason = ''significant_positive''\<rparr>
              else if np_lt np effect_size (- round_double (196/100)) then
                \<lparr>test_decision = ''ship_control'', test_confidence = 95/100,
                 test_reason = ''significant_negative''\<rparr>
              else
                \<lparr>test_decision = ''extend'', test_confidence = 1/2,
                 test_reason = ''no_significant_difference''\<rparr>)"
    using l by (simp add: msprt_test_def Let_def)
qed

theorem mean_metric_dispatch_witness:
  "analyze_experiment
       (MonitoringWorker (\<lambda>k. Inr (100, 1000, 90, 1000)) (\<lambda>k. []) False) (\<lambda>a b i. 0) ''exp''
       \<lparr>min_sample_size = Some 2000,
        primary_metric = Some \<lparr>metric_name = Some ''revenue'', metric_type = Some ''mean''\<rparr>\<rparr>
     = (\<lparr>decision = ''ship_control'', confidence = 9/10, sample_size = 2000,
         reason = ''Treatment shows degradation'',
         prob_treatment_better = None, ai_override = False\<rparr>, \<lambda>a b i. 0)
   \<and> msprt_test ideal_numpy [1, 2, 3, 4, 5, 6, 7, 8, 9] [2, 3, 4, 5, 6, 7, 8, 9, 10]
     = \<lparr>test_decision = ''extend'', test_confidence = 1/2, test_reason = ''insufficient_data''\<rparr>
   \<and> msprt_test ideal_numpy [1, 2, 3, 4, 5, 6, 7, 8, 9, 10] [1, 2, 3, 4, 5, 6, 7, 8, 9, 10]
     = \<lparr>test_decision = ''extend'', test_confidence = 1/2,
        test_reason = ''no_significant_difference''\<rparr>"
proof -
  let ?self = "MonitoringWorker (\<lambda>k. Inr (100, 1000, 90, 1000)) (\<lambda>k. []) False"
  let ?sp = "\<lparr>min_sample_size = Some 2000,
        primary_metric = Some \<lparr>metric_name = Some ''revenue'', metric_type = Some ''mean''\<rparr>\<rparr>"
  let ?xs = "[1, 2, 3, 4, 5, 6, 7, 8, 9, 10] :: real list"
  note t = mean_metric_dispatch [of ?self "''exp''" 100 1000 90 1000 ?sp "\<lambda>a b i. 0"
      "[1, 2, 3, 4, 5, 6, 7, 8, 9]" "[2, 3, 4, 5, 6, 7, 8, 9, 10]" ideal_numpy]
  note u = mean_metric_dispatch [of ?self "''exp''" 100 1000 90 1000 ?sp "\<lambda>a b i. 0"
      ?xs ?xs ideal_numpy]
  have h: "posthog ?self ''exp'' = Inr (100, 1000, 90, 1000) \<and>
    min_sample_of ?sp \<le> 1000 + 1000 \<and> metric_type_of ?sp = ''mean''"
    by (simp add: MonitoringWorker_def min_sample_of_def metric_type_of_def)
  have o: "\<not> rate_overflow (100, 1000, 90, 1000)"
    by (simp add: rate_overflow_def overflows_def)
  have "analyze_experiment ?self (\<lambda>a b i. 0) ''exp'' ?sp =
          (if float_gt (round_double (9/100)) (float_mul (round_double (1/10)) (round_double (11/10)))
           then \<lparr>decision = ''ship_treatment'', confidence = 9/10,
                  sample_size = 1000 + 1000, reason = ''Treatment shows improvement'',
                  prob_treatment_better = None, ai_override = False\<rparr>
           else if float_lt (round_double (9/100)) (float_mul (round_double (1/10)) (round_double (9/10)))
           then \<lparr>decision = ''ship_control'', confidence = 9/10,
                  sample_size = 1000 + 1000, reason = ''Treatment shows degradation'',
                  prob_treatment_better = None, ai_override = False\<rparr>
           else \<lparr>decision = ''extend'', confidence = 1/2,
                  sample_size = 1000 + 1000, reason = ''No clear difference'',
                  prob_treatment_better = None, ai_override = False\<rparr>, \<lambda>a b i. 0)"
    using t [THEN conjunct1, rule_format, OF h, THEN conjunct2, rule_format, OF o,
        of "round_double (1/10)" "round_double (9/100)"]
    by simp
  then have first: "analyze_experiment ?self (\<lambda>a b i. 0) ''exp'' ?sp =
     (\<lparr>decision = ''ship_control'', confidence = 9/10, sample_size = 2000,
         reason = ''Treatment shows degradation'',
         prob_treatment_better = None, ai_override = False\<rparr>, \<lambda>a b i. 0)"
    using not_gt_9_100 lt_9_100 by simp
  have second: "msprt_test ideal_numpy [1, 2, 3, 4, 5, 6, 7, 8, 9] [2, 3, 4, 5, 6, 7, 8, 9, 10]
     = \<lparr>test_decision = ''extend'', test_confidence = 1/2, test_reason = ''insufficient_data''\<rparr>"
    using t [THEN conjunct2, THEN conjunct1] by simp
  have e: "np_div ideal_numpy
             (np_sub ideal_numpy (np_mean ideal_numpy ?xs) (np_mean ideal_numpy ?xs))
             (np_sqrt ideal_numpy
               (np_add ideal_numpy
                 (np_square ideal_numpy
                   (np_div ideal_numpy (np_std ideal_numpy ?xs)
                      (np_sqrt_len ideal_numpy (length ?xs))))
                 (np_square ideal_numpy
                   (np_div ideal_numpy (np_std ideal_numpy ?xs)
                      (np_sqrt_len ideal_numpy (length ?xs)))))) = 0"
    by (simp add: ideal_numpy_def)
  have gt: "\<not> np_gt ideal_numpy 0 (round_double (196/100))"
    unfolding rd_196_100 by (simp add: ideal_numpy_def)
  have lt: "\<not> np_lt ideal_numpy 0 (- round_double (196/100))"
    unfolding rd_196_100 by (simp add: ideal_numpy_def)
  have len: "10 \<le> length ?xs \<and> 10 \<le> length ?xs"
    by simp
  have third: "msprt_test ideal_numpy ?xs ?xs
     = \<lparr>test_decision = ''extend'', test_confidence = 1/2,
        test_reason = ''no_significant_difference''\<rparr>"
    using u [THEN conjunct2, THEN conjunct2, rule_format, OF len refl] gt lt
    by (simp only: e if_False)
  show ?thesis
    using first second third by (intro conjI)
qed

text \<open>
  C5 (end-to-end scenario 1) is a statement about the draws of numpy's Beta sampler at
  the counts \<open>(480, 5000, 520, 5000)\<close>: whether the fraction of treatment wins among the
  20000 pairs reaches \<open>0.95\<close> is decided by the sampler, which is a parameter here and
  carries no probability measure. What the analysis does with the fraction once it is
  drawn is the rule of C2. (For \<open>Beta(481, 4521)\<close> against \<open>Beta(521, 4481)\<close> the posterior
  probability that the treatment rate is the larger one is about \<open>0.91\<close>.)
\<close>

text \<open>
  C7 (Bayesian error neutrality). \<^verbatim>\<open>bayes_prob_better\<close> returns a float on every input:
  whenever its \<^verbatim>\<open>try\<close> block raises, the value is \<open>0.5\<close>. The block raises exactly on the
  degenerate inputs, and otherwise the value is the one the block computes.
\<close>


theorem bayes_error_neutrality:
  "(\<forall>e g'. bayes_body g suc_a tot_a suc_b tot_b sims = (Inl e, g') \<longrightarrow>
        bayes_prob_better g suc_a tot_a suc_b tot_b sims = (Fl (1/2), g'))
   \<and> ((\<exists>e. fst (bayes_body g suc_a tot_a suc_b tot_b sims) = Inl e) \<longleftrightarrow>
        degenerate suc_a tot_a suc_b tot_b sims)
   \<and> (degenerate suc_a tot_a suc_b tot_b sims \<longrightarrow>
        fst (bayes_prob_better g suc_a tot_a suc_b tot_b sims) = Fl (1/2))
   \<and> (\<not> degenerate suc_a tot_a suc_b tot_b sims \<longrightarrow>
        (\<exists>p. fst (bayes_body g suc_a tot_a suc_b tot_b sims) = Inr p \<and>
             fst (bayes_prob_better g suc_a tot_a suc_b tot_b sims) = p))"
  by (auto simp add: bayes_prob_better_def bayes_body_def np_random_beta_def degenerate_def Let_def)

theorem bayes_error_neutrality_witness:
  "degenerate 10 5 3 8 20000 \<and> fst (bayes_prob_better (\<lambda>a b i. 0) 10 5 3 8 20000) = Fl (1/2)"
  using bayes_error_neutrality [of "\<lambda>a b i. 0" 10 5 3 8 20000]
  by (simp add: degenerate_def)

text \<open>
  C8 (symmetry within Monte-Carlo tolerance) is a statement about the distribution of
  the draws: two runs agree within \<open>0.02\<close> with high probability, not for every stream
  that the generator can output. It has no counterpart here, where the stream is a
  parameter without a probability measure.
\<close>


text \<open>
  C10 (totality of the analysis, sample size on the error path). \<^verbatim>\<open>analyze_experiment\<close>
  returns a result on every input. Whenever its \<^verbatim>\<open>try\<close> block raises, the result is
  \<open>extend\<close> with confidence \<open>0.5\<close>, a reason that starts with \<open>Analysis error:\<close> and
  sample size \<open>0\<close>. The block raises when the fetch of the counts raises, and when a
  quotient of the \<^verbatim>\<open>"mean"\<close> branch is too large for a float, and only then: the
  Bayesian test catches its own exceptions.
\<close>

theorem analyze_error_path:
  "(\<forall>e g'. analyze_body self g experiment_key sp = (Inl e, g') \<longrightarrow>
        analyze_experiment self g experiment_key sp =
          (\<lparr>decision = ''extend'', confidence = 1/2, sample_size = 0,
            reason = ''Analysis error: '' @ message e,
            prob_treatment_better = None, ai_override = False\<rparr>, g'))
   \<and> (\<forall>e. posthog self experiment_key = Inl e \<longrightarrow>
        analyze_body self g experiment_key sp = (Inl e, g))
   \<and> ((\<exists>e g'. analyze_body self g experiment_key sp = (Inl e, g')) \<longleftrightarrow>
        (\<exists>e. posthog self experiment_key = Inl e) \<or>
        (\<exists>c. posthog self experiment_key = Inr c \<and>
             min_sample_of sp \<le> fst (snd c) + snd (snd (snd c)) \<and>
             metric_type_of sp = ''mean'' \<and> rate_overflow c))"
proof (intro conjI allI impI)
  fix e g'
  assume "analyze_body self g experiment_key sp = (Inl e, g')"
  then show "analyze_experiment self g experiment_key sp =
          (\<lparr>decision = ''extend'', confidence = 1/2, sample_size = 0,
            reason = ''Analysis error: '' @ message e,
            prob_treatment_better = None, ai_override = False\<rparr>, g')"
    by (simp add: analyze_experiment_def)
next
  fix e
  assume "posthog self experiment_key = Inl e"
  then show "analyze_body self g experiment_key sp = (Inl e, g)"
    by (simp add: analyze_body_def)
next
  show "(\<exists>e g'. analyze_body self g experiment_key sp = (Inl e, g')) \<longleftrightarrow>
        (\<exists>e. posthog self experiment_key = Inl e) \<or>
        (\<exists>c. posthog self experiment_key = Inr c \<and>
             min_sample_of sp \<le> fst (snd c) + snd (snd (snd c)) \<and>
             metric_type_of sp = ''mean'' \<and> rate_overflow c)"
  proof (cases "posthog self experiment_key")
    case (Inl e)
    then show ?thesis
      by (simp add: analyze_body_def)
  next
    case (Inr c)
    obtain suc_c tot_c suc_t tot_t where c: "c = (suc_c, tot_c, suc_t, tot_t)"
      by (cases c) auto
    have m: "(\<exists>e. mean_decision c (tot_c + tot_t) = Inl e) \<longleftrightarrow> rate_overflow c"
      by (auto simp add: c mean_decision_def rate_overflow_def int_true_div_def
          split: sum.splits if_splits)
    show ?thesis
      using m
      by (auto simp add: Inr c analyze_body_def Let_def split: prod.splits)
  qed
qed

theorem analyze_error_path_witness:
  "analyze_experiment (MonitoringWorker (\<lambda>k. Inl (Error ''connection refused'')) (\<lambda>k. []) False)
      (\<lambda>a b i. 0) ''exp'' \<lparr>min_sample_size = Some 2000, primary_metric = None\<rparr> =
     (\<lparr>decision = ''extend'', confidence = 1/2, sample_size = 0,
       reason = ''Analysis error: connection refused'',
       prob_treatment_better = None, ai_override = False\<rparr>, \<lambda>a b i. 0)"
  using analyze_error_path [of "MonitoringWorker (\<lambda>k. Inl (Error ''connection refused'')) (\<lambda>k. []) False"
      "\<lambda>a b i. 0" "''exp''" "\<lparr>min_sample_size = Some 2000, primary_metric = None\<rparr>"]
  by (simp add: MonitoringWorker_def)

subsection \<open>The advisory reviewer\<close>

text \<open>
  C6 (advisory override contract) does not hold as stated. The reply
  \<open>DECISION: ship_treatment\<close> reports no confidence, and yet it replaces an \<open>extend\<close> of
  confidence \<open>0.5\<close>.
\<close>

theorem advisory_override_counterexample:
  "re_search ''CONFIDENCE:'' is_digit_or_dot ''DECISION: ship_treatment'' = None
   \<and> decision (use_ai_analyst (Inr ''DECISION: ship_treatment'')
        \<lparr>decision = ''extend'', confidence = 1/2, sample_size = 10000,
         reason = ''Inconclusive results'', prob_treatment_better = Some (Fl (9/10)),
         ai_override = False\<rparr>) = ''ship_treatment''"
proof -
  let ?ar = "\<lparr>decision = ''extend'', confidence = 1/2, sample_size = 10000,
         reason = ''Inconclusive results'', prob_treatment_better = Some (Fl (9/10)),
         ai_override = False\<rparr>"
  have w: "\<forall>c\<in>set ''ship_treatment''. is_word c"
    by (simp add: is_word_def)
  have l: "lower ''ship_treatment'' = ''ship_treatment''"
    by (simp add: lower_def to_lower_def)
  have c: "re_search ''CONFIDENCE:'' is_digit_or_dot (''DECISION: '' @ ''ship_treatment'') = None"
    using w by (rule search_confidence_absent)
  have "use_ai_analyst (Inr (''DECISION: '' @ ''ship_treatment'')) ?ar =
        \<lparr>decision = lower ''ship_treatment'', confidence = 8/10, sample_size = sample_size ?ar,
         reason = ''AI override: AI analysis'',
         prob_treatment_better = None, ai_override = True\<rparr>"
    using w by (intro use_ai_decision_only) simp_all
  then have "decision (use_ai_analyst (Inr (''DECISION: '' @ ''ship_treatment'')) ?ar) =
      ''ship_treatment''"
    by (simp only: l analysis.simps)
  then show ?thesis
    using c by (simp only: append.simps simp_thms)
qed

text \<open>
  C6 as the code has it. The advisory decision replaces the numeric one only if the
  reply has a \<^verbatim>\<open>DECISION:\<close> token and the advisory confidence is strictly higher than
  the numeric confidence, where the advisory confidence is the number after
  \<^verbatim>\<open>CONFIDENCE:\<close> when the reply has that token and \<open>0.8\<close> when it has not. If the
  advisory call raises, if the reply has no \<^verbatim>\<open>DECISION:\<close> token, or if the text after
  \<^verbatim>\<open>CONFIDENCE:\<close> is not a number, the numeric result stands; \<^verbatim>\<open>use_ai_analyst\<close>
  returns a result in every case.
\<close>

theorem advisory_override_contract:
  "(use_ai_analyst ai analysis_result = analysis_result \<or>
     (\<exists>ai_response d c.
        ai = Inr ai_response \<and>
        re_search ''DECISION:'' is_word ai_response = Some d \<and>
        ((re_search ''CONFIDENCE:'' is_digit_or_dot ai_response = None \<and> c = 8/10) \<or>
         (\<exists>cs. re_search ''CONFIDENCE:'' is_digit_or_dot ai_response = Some cs \<and>
               py_float cs = Inr c)) \<and>
        confidence analysis_result < c \<and>
        use_ai_analyst ai analysis_result =
          \<lparr>decision = lower d, confidence = c, sample_size = sample_size analysis_result,
           reason = ''AI override: '' @ ai_rationale_of ai_response,
           prob_treatment_better = None, ai_override = True\<rparr>))
   \<and> (\<forall>e. ai = Inl e \<longrightarrow> use_ai_analyst ai analysis_result = analysis_result)
   \<and> (\<forall>ai_response. ai = Inr ai_response \<and>
          re_search ''DECISION:'' is_word ai_response = None \<longrightarrow>
          use_ai_analyst ai analysis_result = analysis_result)
   \<and> (\<forall>ai_response cs e. ai = Inr ai_response \<and>
          re_search ''CONFIDENCE:'' is_digit_or_dot ai_response = Some cs \<and>
          py_float cs = Inl e \<longrightarrow>
          use_ai_analyst ai analysis_result = analysis_result)"
proof (intro conjI allI impI)
  show "use_ai_analyst ai analysis_result = analysis_result \<or>
     (\<exists>ai_response d c.
        ai = Inr ai_response \<and>
        re_search ''DECISION:'' is_word ai_response = Some d \<and>
        ((re_search ''CONFIDENCE:'' is_digit_or_dot ai_response = None \<and> c = 8/10) \<or>
         (\<exists>cs. re_search ''CONFIDENCE:'' is_digit_or_dot ai_response = Some cs \<and>
               py_float cs = Inr c)) \<and>
        confidence analysis_result < c \<and>
        use_ai_analyst ai analysis_result =
          \<lparr>decision = lower d, confidence = c, sample_size = sample_size analysis_result,
           reason = ''AI override: '' @ ai_rationale_of ai_response,
           prob_treatment_better = None, ai_override = True\<rparr>)"
    by (auto simp add: use_ai_analyst_def use_ai_body_def ai_confidence_of_def Let_def
        split: sum.splits option.splits)
next
  fix e assume "ai = Inl e"
  then show "use_ai_analyst ai analysis_result = analysis_result"
    by (simp add: use_ai_analyst_def use_ai_body_def)
next
  fix ai_response
  assume "ai = Inr ai_response \<and> re_search ''DECISION:'' is_word ai_response = None"
  then show "use_ai_analyst ai analysis_result = analysis_result"
    by (simp add: use_ai_analyst_def use_ai_body_def)
next
  fix ai_response cs e
  assume "ai = Inr ai_response \<and>
          re_search ''CONFIDENCE:'' is_digit_or_dot ai_response = Some cs \<and>
          py_float cs = Inl e"
  then show "use_ai_analyst ai analysis_result = analysis_result"
    by (simp add: use_ai_analyst_def use_ai_body_def ai_confidence_of_def Let_def
        split: option.splits)
qed

theorem advisory_override_contract_witness:
  "use_ai_analyst (Inl (Error ''timeout''))
      \<lparr>decision = ''ship_treatment'', confidence = 96/100, sample_size = 10000,
       reason = ''Strong evidence treatment is better'',
       prob_treatment_better = Some (Fl (96/100)), ai_override = False\<rparr> =
      \<lparr>decision = ''ship_treatment'', confidence = 96/100, sample_size = 10000,
       reason = ''Strong evidence treatment is better'',
       prob_treatment_better = Some (Fl (96/100)), ai_override = False\<rparr>
   \<and> use_ai_analyst (Inr ''CONFIDENCE: 0.99'')
      \<lparr>decision = ''ship_treatment'', confidence = 96/100, sample_size = 10000,
       reason = ''Strong evidence treatment is better'',
       prob_treatment_better = Some (Fl (96/100)), ai_override = False\<rparr> =
      \<lparr>decision = ''ship_treatment'', confidence = 96/100, sample_size = 10000,
       reason = ''Strong evidence treatment is better'',
       prob_treatment_better = Some (Fl (96/100)), ai_override = False\<rparr>
   \<and> use_ai_analyst (Inr ''DECISION: stop CONFIDENCE: 1.2.3'')
      \<lparr>decision = ''ship_treatment'', confidence = 96/100, sample_size = 10000,
       reason = ''Strong evidence treatment is better'',
       prob_treatment_better = Some (Fl (96/100)), ai_override = False\<rparr> =
      \<lparr>decision = ''ship_treatment'', confidence = 96/100, sample_size = 10000,
       reason = ''Strong evidence treatment is better'',
       prob_treatment_better = Some (Fl (96/100)), ai_override = False\<rparr>"
proof -
  let ?ar = "\<lparr>decision = ''ship_treatment'', confidence = 96/100, sample_size = 10000,
       reason = ''Strong evidence treatment is better'',
       prob_treatment_better = Some (Fl (96/100)), ai_override = False\<rparr>"
  have d: "re_search ''DECISION:'' is_word ''CONFIDENCE: 0.99'' = None"
    by (simp add: search_eval)
  have c: "re_search ''CONFIDENCE:'' is_digit_or_dot ''DECISION: stop CONFIDENCE: 1.2.3'' = Some ''1.2.3''"
    by (simp add: search_eval)
  have f: "py_float ''1.2.3'' = Inl (Error ''could not convert string to float: 1.2.3'')"
    by (simp add: py_float_def is_digit_def)
  have 1: "use_ai_analyst (Inl (Error ''timeout'')) ?ar = ?ar"
    using advisory_override_contract [of "Inl (Error ''timeout'')" ?ar] by blast
  have 2: "use_ai_analyst (Inr ''CONFIDENCE: 0.99'') ?ar = ?ar"
    using advisory_override_contract [of "Inr ''CONFIDENCE: 0.99''" ?ar] d by blast
  have 3: "use_ai_analyst (Inr ''DECISION: stop CONFIDENCE: 1.2.3'') ?ar = ?ar"
    using advisory_override_contract [of "Inr ''DECISION: stop CONFIDENCE: 1.2.3''" ?ar] c f
    by blast
  show ?thesis
    using 1 2 3 by (intro conjI)
qed

text \<open>
  C9 (advisory override without validation). When the reply has a \<^verbatim>\<open>DECISION:\<close> token
  and no \<^verbatim>\<open>CONFIDENCE:\<close> token, the advisory confidence is \<open>0.8\<close>, and every numeric
  result whose confidence is below \<open>0.8\<close> is replaced: the decision becomes the captured
  word in lower case, whatever word it is. In particular, for every non-empty word \<open>w\<close>
  of word characters, the reply \<open>DECISION: w\<close> installs \<open>w\<close> in lower case as the
  decision, with confidence \<open>0.8\<close>.
\<close>

theorem advisory_validation_gap:
  "(re_search ''DECISION:'' is_word ai_response = Some d \<and>
    re_search ''CONFIDENCE:'' is_digit_or_dot ai_response = None \<and>
    confidence analysis_result < 8/10 \<longrightarrow>
      use_ai_analyst (Inr ai_response) analysis_result =
        \<lparr>decision = lower d, confidence = 8/10, sample_size = sample_size analysis_result,
         reason = ''AI override: '' @ ai_rationale_of ai_response,
         prob_treatment_better = None, ai_override = True\<rparr>)
   \<and> (w \<noteq> [] \<and> (\<forall>c\<in>set w. is_word c) \<and> confidence analysis_result < 8/10 \<longrightarrow>
      use_ai_analyst (Inr (''DECISION: '' @ w)) analysis_result =
        \<lparr>decision = lower w, confidence = 8/10, sample_size = sample_size analysis_result,
         reason = ''AI override: AI analysis'',
         prob_treatment_better = None, ai_override = True\<rparr>)"
proof (intro conjI impI)
  assume "re_search ''DECISION:'' is_word ai_response = Some d \<and>
    re_search ''CONFIDENCE:'' is_digit_or_dot ai_response = None \<and>
    confidence analysis_result < 8/10"
  then show "use_ai_analyst (Inr ai_response) analysis_result =
        \<lparr>decision = lower d, confidence = 8/10, sample_size = sample_size analysis_result,
         reason = ''AI override: '' @ ai_rationale_of ai_response,
         prob_treatment_better = None, ai_override = True\<rparr>"
    by (simp add: use_ai_analyst_def use_ai_body_def ai_confidence_of_def Let_def)
next
  assume "w \<noteq> [] \<and> (\<forall>c\<in>set w. is_word c) \<and> confidence analysis_result < 8/10"
  then show "use_ai_analyst (Inr (''DECISION: '' @ w)) analysis_result =
        \<lparr>decision = lower w, confidence = 8/10, sample_size = sample_size analysis_result,
         reason = ''AI override: AI analysis'',
         prob_treatment_better = None, ai_override = True\<rparr>"
    using use_ai_decision_only by blast
qed

theorem advisory_validation_gap_witness:
  "use_ai_analyst (Inr ''DECISION: Banana'')
      \<lparr>decision = ''extend'', confidence = 1/2, sample_size = 10000,
       reason = ''Inconclusive results'', prob_treatment_better = Some (Fl (9/10)),
       ai_override = False\<rparr> =
      \<lparr>decision = ''banana'', confidence = 8/10, sample_size = 10000,
       reason = ''AI override: AI analysis'', prob_treatment_better = None,
       ai_override = True\<rparr>"
proof -
  let ?ar = "\<lparr>decision = ''extend'', confidence = 1/2, sample_size = 10000,
       reason = ''Inconclusive results'', prob_treatment_better = Some (Fl (9/10)),
       ai_override = False\<rparr>"
  have h: "''Banana'' \<noteq> [] \<and> (\<forall>c\<in>set ''Banana''. is_word c) \<and> confidence ?ar < 8/10"
    by (simp add: is_word_def)
  have l: "lower ''Banana'' = ''banana''"
    by (simp add: lower_def to_lower_def)
  have "use_ai_analyst (Inr (''DECISION: '' @ ''Banana'')) ?ar =
        \<lparr>decision = lower ''Banana'', confidence = 8/10, sample_size = sample_size ?ar,
         reason = ''AI override: AI analysis'',
         prob_treatment_better = None, ai_override = True\<rparr>"
    using advisory_validation_gap [of "''DECISION: Banana''" "''Banana''" ?ar "''Banana''",
        THEN conjunct2] h
    by (rule mp)
  then show ?thesis
    by (simp only: l append.simps analysis.simps)
qed

subsection \<open>The monitoring loop\<close>

text \<open>
  The calls of a tick whose message names a key that the store knows, with \<open>final_result\<close>
  the effective result (the analysis after the advisory review). When its decision is
  \<open>extend\<close>, the tick stores an outcome whose decision is \<open>extend\<close>, posts it to the chat
  and sleeps 600 seconds; what follows depends on the publish statement. When
  \<^verbatim>\<open>publish\<close> is called, a message with the same experiment key goes to \<open>exp.monitor\<close>
  (and the incoming message is rejected if the call raises). When the statement raises
  before the call, nothing is published and the incoming message is rejected without
  requeue. When the decision is terminal (\<open>ship_treatment\<close>, \<open>ship_control\<close> or \<open>stop\<close>),
  the tick stores the outcome record and posts the decision to the chat, and there is
  neither a sleep nor a publish.
\<close>

lemma monitoring_tick_trace:
  assumes "msg_body t = Inr experiment_key"
      and "mem experiment_key = experiment_data # others"
      and "self = MonitoringWorker ph mem gh"
      and "final_result = use_ai_analyst (ai_reply t)
             (fst (analyze_experiment self g experiment_key (metadata experiment_data)))"
  shows "(decision final_result = ''extend'' \<longrightarrow>
            fst (on_monitor_experiment self g t) =
              [StoreExperiment experiment_key
                 \<lparr>outcome_decision = ''extend'', outcome_confidence = confidence final_result,
                  final_sample_size = sample_size final_result,
                  outcome_reason = reason final_result, timestamp = loop_time t\<rparr>,
               PostExperimentDecision experiment_key ''extend'' (confidence final_result)
                 (sample_size final_result),
               Sleep 600]
              @ (case publish t of
                   NotCalled e \<Rightarrow> [Reject False]
                 | Called None \<Rightarrow>
                     [Publish ''exp.monitor'' experiment_key ''continue_monitoring'']
                 | Called (Some e) \<Rightarrow>
                     [Publish ''exp.monitor'' experiment_key ''continue_monitoring'',
                      Reject False]))
       \<and> (terminal (decision final_result) \<longrightarrow>
            fst (on_monitor_experiment self g t) =
              [StoreExperiment experiment_key
                 \<lparr>outcome_decision = decision final_result,
                  outcome_confidence = confidence final_result,
                  final_sample_size = sample_size final_result,
                  outcome_reason = reason final_result, timestamp = loop_time t\<rparr>,
               PostExperimentDecision experiment_key (decision final_result)
                 (confidence final_result) (sample_size final_result)])"
proof -
  obtain analysis_result g' where
    a: "analyze_experiment self g experiment_key (metadata experiment_data) = (analysis_result, g')"
    by (cases "analyze_experiment self g experiment_key (metadata experiment_data)")
  have f: "final_result = use_ai_analyst (ai_reply t) analysis_result"
    using assms(4) a by simp
  have m: "memory self experiment_key = experiment_data # others"
    using assms(2,3) by (simp add: MonitoringWorker_def)
  have i: "monitoring_interval self = 600"
    using assms(3) by (simp add: MonitoringWorker_def)
  have t: "\<not> terminal ''extend''"
    by (simp add: terminal_def)
  show ?thesis
    using assms(1) a m i t
    by (auto simp add: on_monitor_experiment_def handle_experiment_decision_def Let_def
        f [symmetric] split: publish_statement.splits option.splits)
qed

text \<open>
  C4 (monitoring-loop step) is what the code attempts and misses on the \<open>extend\<close> side.
  The handler receives an \<^verbatim>\<open>IncomingMessage\<close> of aio_pika, which has no method
  \<^verbatim>\<open>reply\<close> and whose \<^verbatim>\<open>channel\<close> has no \<^verbatim>\<open>default_exchange\<close>, so the publish statement
  raises \<^verbatim>\<open>AttributeError\<close> before \<^verbatim>\<open>publish\<close> is called (the publishers in \<^verbatim>\<open>app.py\<close>
  and \<^verbatim>\<open>scripts/enqueue_demo.py\<close> build a \<^verbatim>\<open>Message\<close> and use the exchange of a channel
  opened on the connection). At such a tick, here with the counts of the placeholder
  fetch, a stored minimum sample size of 20000 and no advisory reply, the decision is
  \<open>extend\<close> and the calls are the store of the \<open>extend\<close> outcome, the chat notification, the
  sleep of 600 seconds and the reject of the incoming message: no message for the key is
  published to \<open>exp.monitor\<close>, and the monitoring of the experiment ends there.
\<close>

theorem monitoring_extend_not_republished:
  "fst (on_monitor_experiment
     (MonitoringWorker get_metric_counts
        (\<lambda>k. [\<lparr>content = ''Experiment: exp'',
                 metadata = \<lparr>min_sample_size = Some 20000, primary_metric = None\<rparr>,
                 distance = 0\<rparr>]) False)
     (\<lambda>a b i. 0)
     \<lparr>msg_body = Inr ''exp'', ai_reply = Inl (Error ''no model''), loop_time = 12,
      publish = NotCalled (Error ''AttributeError'')\<rparr>) =
   [StoreExperiment ''exp''
      \<lparr>outcome_decision = ''extend'', outcome_confidence = 1/2, final_sample_size = 10000,
       outcome_reason = ''Insufficient sample size (10000 < 20000)'', timestamp = 12\<rparr>,
    PostExperimentDecision ''exp'' ''extend'' (1/2) 10000,
    Sleep 600,
    Reject False]"
proof -
  let ?d = "\<lparr>content = ''Experiment: exp'',
                 metadata = \<lparr>min_sample_size = Some 20000, primary_metric = None\<rparr>,
                 distance = 0\<rparr>"
  let ?self = "MonitoringWorker get_metric_counts (\<lambda>k. [?d]) False"
  let ?r = "\<lparr>decision = ''extend'', confidence = 1/2, sample_size = 10000,
             reason = ''Insufficient sample size (10000 < 20000)'',
             prob_treatment_better = None, ai_override = False\<rparr>"
  have a: "fst (analyze_experiment ?self (\<lambda>a b i. 0) ''exp'' (metadata ?d)) = ?r"
    by (simp add: analyze_experiment_def analyze_body_def MonitoringWorker_def min_sample_of_def
        get_metric_counts_def str_int_def str_nat.simps digit_char_def Let_def)
  let ?t = "\<lparr>msg_body = Inr ''exp'', ai_reply = Inl (Error ''no model''), loop_time = 12,
      publish = NotCalled (Error ''AttributeError'')\<rparr>"
  have f: "?r = use_ai_analyst (ai_reply ?t) (fst (analyze_experiment ?self (\<lambda>a b i. 0) ''exp'' (metadata ?d)))"
    unfolding a by (simp add: use_ai_analyst_def use_ai_body_def)
  show ?thesis
    using monitoring_tick_trace [of ?t "''exp''" "\<lambda>k. [?d]" ?d "[]" ?self get_metric_counts False
        ?r "\<lambda>a b i. 0", OF _ _ _ f]
    by simp
qed

text \<open>
  The same tick with a message object on which the publish statement goes through, and
  with an advisory reply that stops the experiment: the first publishes to
  \<open>exp.monitor\<close> after the sleep, the second stores and notifies the terminal decision
  and publishes nothing.
\<close>

lemma monitoring_tick_examples:
  "fst (on_monitor_experiment
     (MonitoringWorker get_metric_counts
        (\<lambda>k. [\<lparr>content = ''Experiment: exp'',
                 metadata = \<lparr>min_sample_size = Some 20000, primary_metric = None\<rparr>,
                 distance = 0\<rparr>]) False)
     (\<lambda>a b i. 0)
     \<lparr>msg_body = Inr ''exp'', ai_reply = Inl (Error ''no model''), loop_time = 12,
      publish = Called None\<rparr>) =
   [StoreExperiment ''exp''
      \<lparr>outcome_decision = ''extend'', outcome_confidence = 1/2, final_sample_size = 10000,
       outcome_reason = ''Insufficient sample size (10000 < 20000)'', timestamp = 12\<rparr>,
    PostExperimentDecision ''exp'' ''extend'' (1/2) 10000,
    Sleep 600,
    Publish ''exp.monitor'' ''exp'' ''continue_monitoring'']
   \<and> fst (on_monitor_experiment
     (MonitoringWorker get_metric_counts
        (\<lambda>k. [\<lparr>content = ''Experiment: exp'',
                 metadata = \<lparr>min_sample_size = Some 20000, primary_metric = None\<rparr>,
                 distance = 0\<rparr>]) False)
     (\<lambda>a b i. 0)
     \<lparr>msg_body = Inr ''exp'', ai_reply = Inr ''DECISION: stop'', loop_time = 12,
      publish = Called None\<rparr>) =
   [StoreExperiment ''exp''
      \<lparr>outcome_decision = ''stop'', outcome_confidence = 8/10, final_sample_size = 10000,
       outcome_reason = ''AI override: AI analysis'', timestamp = 12\<rparr>,
    PostExperimentDecision ''exp'' ''stop'' (8/10) 10000]"
proof -
  let ?d = "\<lparr>content = ''Experiment: exp'',
                 metadata = \<lparr>min_sample_size = Some 20000, primary_metric = None\<rparr>,
                 distance = 0\<rparr>"
  let ?self = "MonitoringWorker get_metric_counts (\<lambda>k. [?d]) False"
  let ?r = "\<lparr>decision = ''extend'', confidence = 1/2, sample_size = 10000,
             reason = ''Insufficient sample size (10000 < 20000)'',
             prob_treatment_better = None, ai_override = False\<rparr>"
  have a: "fst (analyze_experiment ?self (\<lambda>a b i. 0) ''exp'' (metadata ?d)) = ?r"
    by (simp add: analyze_experiment_def analyze_body_def MonitoringWorker_def min_sample_of_def
        get_metric_counts_def str_int_def str_nat.simps digit_char_def Let_def)
  let ?t1 = "\<lparr>msg_body = Inr ''exp'', ai_reply = Inl (Error ''no model''), loop_time = 12,
      publish = Called None\<rparr>"
  let ?t2 = "\<lparr>msg_body = Inr ''exp'', ai_reply = Inr ''DECISION: stop'', loop_time = 12,
      publish = Called None\<rparr>"
  let ?f2 = "\<lparr>decision = ''stop'', confidence = 8/10, sample_size = 10000,
             reason = ''AI override: AI analysis'',
             prob_treatment_better = None, ai_override = True\<rparr>"
  have f1: "?r = use_ai_analyst (ai_reply ?t1) (fst (analyze_experiment ?self (\<lambda>a b i. 0) ''exp'' (metadata ?d)))"
    unfolding a by (simp add: use_ai_analyst_def use_ai_body_def)
  have first: "fst (on_monitor_experiment ?self (\<lambda>a b i. 0) ?t1) =
   [StoreExperiment ''exp''
      \<lparr>outcome_decision = ''extend'', outcome_confidence = 1/2, final_sample_size = 10000,
       outcome_reason = ''Insufficient sample size (10000 < 20000)'', timestamp = 12\<rparr>,
    PostExperimentDecision ''exp'' ''extend'' (1/2) 10000,
    Sleep 600,
    Publish ''exp.monitor'' ''exp'' ''continue_monitoring'']"
    using monitoring_tick_trace [of ?t1 "''exp''" "\<lambda>k. [?d]" ?d "[]" ?self get_metric_counts False
        ?r "\<lambda>a b i. 0", OF _ _ _ f1]
    by simp
  have w2: "\<forall>c\<in>set ''stop''. is_word c"
    by (simp add: is_word_def)
  have l2: "lower ''stop'' = ''stop''"
    by (simp add: lower_def to_lower_def)
  have "use_ai_analyst (Inr (''DECISION: '' @ ''stop'')) ?r =
        \<lparr>decision = lower ''stop'', confidence = 8/10, sample_size = sample_size ?r,
         reason = ''AI override: AI analysis'',
         prob_treatment_better = None, ai_override = True\<rparr>"
    using w2 by (intro use_ai_decision_only) simp_all
  then have u2: "use_ai_analyst (ai_reply ?t2) ?r = ?f2"
    by (simp add: l2)
  have f2: "?f2 = use_ai_analyst (ai_reply ?t2) (fst (analyze_experiment ?self (\<lambda>a b i. 0) ''exp'' (metadata ?d)))"
    by (simp only: a u2)
  have second: "fst (on_monitor_experiment ?self (\<lambda>a b i. 0) ?t2) =
   [StoreExperiment ''exp''
      \<lparr>outcome_decision = ''stop'', outcome_confidence = 8/10, final_sample_size = 10000,
       outcome_reason = ''AI override: AI analysis'', timestamp = 12\<rparr>,
    PostExperimentDecision ''exp'' ''stop'' (8/10) 10000]"
    using monitoring_tick_trace [of ?t2 "''exp''" "\<lambda>k. [?d]" ?d "[]" ?self get_metric_counts False
        ?f2 "\<lambda>a b i. 0", OF _ _ _ f2]
    by (simp add: terminal_def)
  show ?thesis
    using first second by (intro conjI)
qed

end
